theory Spec2Isabelle
  imports Complex_Main
begin

section \<open>Strings of the JavaScript runtime\<close>

text \<open>
  A JavaScript string is a sequence of UTF-16 code units; it is modelled as the list of
  their numeric values.  Header values, cookie values, session identifiers and passwords
  are all such strings.  \<open>js\<close> turns an ASCII literal of the source into this form.
\<close>

type_synonym jsstring = "nat list"

definition js :: "string \<Rightarrow> jsstring" where
  "js s = map of_char s"

text \<open>\<open>!s\<close> for a value that is a string or \<open>undefined\<close>/\<open>null\<close>: only a
  non-empty string is truthy.\<close>

fun truthy :: "jsstring option \<Rightarrow> bool" where
  "truthy None = False"
| "truthy (Some s) = (s \<noteq> [])"

text \<open>\<open>String.prototype.indexOf\<close> for a one-unit needle; \<open>None\<close> stands for \<open>-1\<close>.\<close>

fun indexOf :: "jsstring \<Rightarrow> nat \<Rightarrow> nat option" where
  "indexOf [] c = None"
| "indexOf (x # xs) c = (if x = c then Some 0 else map_option Suc (indexOf xs c))"

text \<open>\<open>String.prototype.split\<close> for a one-unit separator: the empty string splits into
  one empty piece, and a trailing separator leaves an empty last piece.\<close>

fun split :: "nat \<Rightarrow> jsstring \<Rightarrow> jsstring list" where
  "split sep [] = [[]]"
| "split sep (c # cs) =
     (if c = sep then [] # split sep cs
      else (case split sep cs of [] \<Rightarrow> [[c]] | p # ps \<Rightarrow> (c # p) # ps))"

text \<open>The code units \<open>String.prototype.trim\<close> removes: ECMAScript WhiteSpace and
  LineTerminator.\<close>

definition is_white_space :: "nat \<Rightarrow> bool" where
  "is_white_space c \<longleftrightarrow>
     c \<in> {0x09, 0x0A, 0x0B, 0x0C, 0x0D, 0x20, 0xA0, 0x1680, 0x2028, 0x2029, 0x202F,
          0x205F, 0x3000, 0xFEFF} \<or> (0x2000 \<le> c \<and> c \<le> 0x200A)"

definition trim :: "jsstring \<Rightarrow> jsstring" where
  "trim s = rev (dropWhile is_white_space (rev (dropWhile is_white_space s)))"

definition startsWith :: "jsstring \<Rightarrow> jsstring \<Rightarrow> bool" where
  "startsWith s p \<longleftrightarrow> take (length p) s = p"

subsection \<open>decodeURIComponent\<close>

text \<open>
  The built-in follows the \<open>Decode\<close> operation of ECMA-262 with an empty set of preserved
  escapes: a percent sign must be followed by two hexadecimal digits; an octet below
  \<open>0x80\<close> is the code unit itself; otherwise the octet announces a UTF-8 sequence of two
  to four octets, each further one escaped in turn, which must encode a Unicode code point
  and is replaced by its UTF-16 form.  Every violation throws \<open>URIError\<close>.
\<close>

datatype js_error =
    URIError
  | SyntaxError
  | TypeError
  | ENOENT
  | EISDIR
  | EROFS
  | ENOSPC
  | Error jsstring

definition hex_digit :: "nat \<Rightarrow> nat option" where
  "hex_digit c =
     (if 0x30 \<le> c \<and> c \<le> 0x39 then Some (c - 0x30)
      else if 0x41 \<le> c \<and> c \<le> 0x46 then Some (c - 0x41 + 10)
      else if 0x61 \<le> c \<and> c \<le> 0x66 then Some (c - 0x61 + 10)
      else None)"

definition ParseHexOctet :: "nat \<Rightarrow> nat \<Rightarrow> nat option" where
  "ParseHexOctet h l =
     (case hex_digit h of None \<Rightarrow> None
      | Some a \<Rightarrow> (case hex_digit l of None \<Rightarrow> None | Some b \<Rightarrow> Some (16 * a + b)))"

definition leading_ones :: "nat \<Rightarrow> nat" where
  "leading_ones b =
     (if b < 0x80 then 0 else if b < 0xC0 then 1 else if b < 0xE0 then 2
      else if b < 0xF0 then 3 else if b < 0xF8 then 4 else 5)"

text \<open>The escapes \<open>%XX\<close> of the \<open>j\<close> continuation octets, and the rest of the string.\<close>

fun continuation :: "nat \<Rightarrow> jsstring \<Rightarrow> (nat list \<times> jsstring) option" where
  "continuation j s =
     (if j = 0 then Some ([], s)
      else
        (case s of
           p # h # l # rest \<Rightarrow>
             (if p = 0x25 then
                (case ParseHexOctet h l of
                   None \<Rightarrow> None
                 | Some b \<Rightarrow> map_option (\<lambda>(bs, r). (b # bs, r)) (continuation (j - 1) rest))
              else None)
         | _ \<Rightarrow> None))"

declare continuation.simps [simp del]

definition is_cont :: "nat \<Rightarrow> bool" where
  "is_cont b \<longleftrightarrow> 0x80 \<le> b \<and> b \<le> 0xBF"

text \<open>The code point of a well-formed UTF-8 sequence: no overlong form, no surrogate,
  nothing beyond \<open>U+10FFFF\<close>.\<close>

definition utf8_value :: "nat list \<Rightarrow> nat option" where
  "utf8_value octets =
     (case octets of
        [b0, b1] \<Rightarrow>
          (let v = (b0 - 0xC0) * 64 + (b1 - 0x80)
           in if is_cont b1 \<and> 0x80 \<le> v then Some v else None)
      | [b0, b1, b2] \<Rightarrow>
          (let v = (b0 - 0xE0) * 4096 + (b1 - 0x80) * 64 + (b2 - 0x80)
           in if is_cont b1 \<and> is_cont b2 \<and> 0x800 \<le> v \<and> \<not> (0xD800 \<le> v \<and> v \<le> 0xDFFF)
              then Some v else None)
      | [b0, b1, b2, b3] \<Rightarrow>
          (let v = (b0 - 0xF0) * 262144 + (b1 - 0x80) * 4096 + (b2 - 0x80) * 64 + (b3 - 0x80)
           in if is_cont b1 \<and> is_cont b2 \<and> is_cont b3 \<and> 0x10000 \<le> v \<and> v \<le> 0x10FFFF
              then Some v else None)
      | _ \<Rightarrow> None)"

definition UTF16EncodeCodePoint :: "nat \<Rightarrow> jsstring" where
  "UTF16EncodeCodePoint v =
     (if v \<le> 0xFFFF then [v]
      else [0xD800 + (v - 0x10000) div 1024, 0xDC00 + (v - 0x10000) mod 1024])"

lemma continuation_length:
  "continuation j s = Some (bs, r) \<Longrightarrow> length r \<le> length s"
proof (induction j s arbitrary: bs r rule: continuation.induct)
  case (1 j s)
  show ?case
  proof (cases "j = 0")
    case True
    with "1.prems" show ?thesis
      by (simp add: continuation.simps [of 0 s])
  next
    case False
    with "1.prems" obtain p h l rest b bs' where
      s: "s = p # h # l # rest" and p: "p = 0x25" and b: "ParseHexOctet h l = Some b"
      and rec: "continuation (j - 1) rest = Some (bs', r)"
      by (auto simp: continuation.simps [of j s] split: list.splits if_splits option.splits)
    from "1.IH" [OF False s refl refl p b rec] show ?thesis
      by (simp add: s)
  qed
qed

function decodeURIComponent :: "jsstring \<Rightarrow> js_error + jsstring" where
  "decodeURIComponent [] = Inr []"
| "decodeURIComponent (c # cs) =
     (if c \<noteq> 0x25 then
        (case decodeURIComponent cs of Inl e \<Rightarrow> Inl e | Inr r \<Rightarrow> Inr (c # r))
      else
        (case cs of
           h # l # rest \<Rightarrow>
             (case ParseHexOctet h l of
                None \<Rightarrow> Inl URIError
              | Some b \<Rightarrow>
                  (let n = leading_ones b in
                   if n = 0 then
                     (case decodeURIComponent rest of Inl e \<Rightarrow> Inl e | Inr r \<Rightarrow> Inr (b # r))
                   else if n = 1 \<or> 4 < n then Inl URIError
                   else
                     (case continuation (n - 1) rest of
                        None \<Rightarrow> Inl URIError
                      | Some (octets, rest') \<Rightarrow>
                          (case utf8_value (b # octets) of
                             None \<Rightarrow> Inl URIError
                           | Some v \<Rightarrow>
                               (case decodeURIComponent rest' of
                                  Inl e \<Rightarrow> Inl e
                                | Inr r \<Rightarrow> Inr (UTF16EncodeCodePoint v @ r))))))
         | _ \<Rightarrow> Inl URIError))"
  by pat_completeness auto
termination
proof (relation "measure length", goal_cases)
  case 1
  show ?case by simp
next
  case (2 c cs)
  then show ?case by simp
next
  case (3 c cs h ys l rest b n)
  then show ?case by simp
next
  case (4 c cs h ys l rest b n x octets rest')
  then show ?case
    using continuation_length [of "n - 1" rest octets rest'] by simp
qed

section \<open>Requests and cookies\<close>

text \<open>The request headers the server reads; a header that was not sent is \<open>None\<close>.\<close>

record request =
  cookie :: "jsstring option"
  authorization :: "jsstring option"
  x_admin_password :: "jsstring option"

text \<open>
  \<open>parseCookies\<close> (server.js, lines 74-86).  The body of the \<open>forEach\<close> is one step of
  \<open>parse_pairs\<close>: a pair without \<open>=\<close> is skipped, the key is trimmed and not decoded, the
  value is trimmed and passed to \<open>decodeURIComponent\<close>, whose exception leaves the loop
  and the function.  A later pair overwrites an earlier one of the same key.
\<close>

fun parse_pairs ::
  "jsstring list \<Rightarrow> (jsstring \<rightharpoonup> jsstring) \<Rightarrow> js_error + (jsstring \<rightharpoonup> jsstring)" where
  "parse_pairs [] result = Inr result"
| "parse_pairs (pair # pairs) result =
     (case indexOf pair 0x3D of
        None \<Rightarrow> parse_pairs pairs result
      | Some idx \<Rightarrow>
          (let key = trim (take idx pair);
               val = trim (drop (idx + 1) pair)
           in case decodeURIComponent val of
                Inl e \<Rightarrow> Inl e
              | Inr v \<Rightarrow> parse_pairs pairs (result(key \<mapsto> v))))"

definition parseCookies :: "request \<Rightarrow> js_error + (jsstring \<rightharpoonup> jsstring)" where
  "parseCookies req =
     (if \<not> truthy (cookie req) then Inr Map.empty
      else parse_pairs (split 0x3B (the (cookie req))) Map.empty)"

section \<open>Numbers of the JavaScript runtime\<close>

text \<open>
  A JavaScript number is an IEEE-754 binary64 value: a finite value, which is a rational
  number, an infinity, or NaN.  The sign of zero is not represented: no operation of this
  program tells \<open>-0\<close> from \<open>+0\<close>, and \<open>JSON.stringify\<close> prints both as \<open>0\<close>.

  The arithmetic operations compute the exact result and round it to binary64.  Every
  operation takes the rounding as the parameter \<open>fl\<close>: what is proved below about the
  totals holds for every \<open>fl\<close>, and \<open>binary64\<close> (to nearest, ties to even, overflowing to
  an infinity) is the rounding of the platform.  \<open>Math.ceil\<close>, \<open>Math.round\<close> and the
  comparison are exact on binary64 values.
\<close>

datatype jsnum = Fin rat | PosInf | NegInf | NaN

type_synonym rounding = "rat \<Rightarrow> jsnum"

fun jsneg :: "jsnum \<Rightarrow> jsnum" where
  "jsneg (Fin x) = Fin (- x)"
| "jsneg PosInf = NegInf"
| "jsneg NegInf = PosInf"
| "jsneg NaN = NaN"

fun jsadd :: "rounding \<Rightarrow> jsnum \<Rightarrow> jsnum \<Rightarrow> jsnum" where
  "jsadd fl (Fin x) (Fin y) = fl (x + y)"
| "jsadd fl NaN b = NaN"
| "jsadd fl a NaN = NaN"
| "jsadd fl PosInf NegInf = NaN"
| "jsadd fl NegInf PosInf = NaN"
| "jsadd fl PosInf b = PosInf"
| "jsadd fl a PosInf = PosInf"
| "jsadd fl NegInf b = NegInf"
| "jsadd fl a NegInf = NegInf"

definition jssub :: "rounding \<Rightarrow> jsnum \<Rightarrow> jsnum \<Rightarrow> jsnum" where
  "jssub fl a b = jsadd fl a (jsneg b)"

fun jsmul :: "rounding \<Rightarrow> jsnum \<Rightarrow> jsnum \<Rightarrow> jsnum" where
  "jsmul fl (Fin x) (Fin y) = fl (x * y)"
| "jsmul fl NaN b = NaN"
| "jsmul fl a NaN = NaN"
| "jsmul fl (Fin x) b =
     (if x = 0 then NaN else if (0 < x) = (b = PosInf) then PosInf else NegInf)"
| "jsmul fl a (Fin y) =
     (if y = 0 then NaN else if (0 < y) = (a = PosInf) then PosInf else NegInf)"
| "jsmul fl a b = (if a = b then PosInf else NegInf)"

text \<open>Division; a zero divisor is taken as \<open>+0\<close> (the program divides by \<open>100\<close> only).\<close>

fun jsdiv :: "rounding \<Rightarrow> jsnum \<Rightarrow> jsnum \<Rightarrow> jsnum" where
  "jsdiv fl (Fin x) (Fin y) =
     (if y = 0 then (if x = 0 then NaN else if 0 < x then PosInf else NegInf)
      else fl (x / y))"
| "jsdiv fl NaN b = NaN"
| "jsdiv fl a NaN = NaN"
| "jsdiv fl (Fin x) b = Fin 0"
| "jsdiv fl a (Fin y) = (if (0 \<le> y) = (a = PosInf) then PosInf else NegInf)"
| "jsdiv fl a b = NaN"

text \<open>\<open>a > b\<close>.\<close>

fun js_gt :: "jsnum \<Rightarrow> jsnum \<Rightarrow> bool" where
  "js_gt (Fin x) (Fin y) = (y < x)"
| "js_gt NaN b = False"
| "js_gt a NaN = False"
| "js_gt PosInf b = (b \<noteq> PosInf)"
| "js_gt a PosInf = False"
| "js_gt a NegInf = (a \<noteq> NegInf)"
| "js_gt NegInf b = False"

fun Math_ceil :: "jsnum \<Rightarrow> jsnum" where
  "Math_ceil (Fin x) = Fin (of_int \<lceil>x\<rceil>)"
| "Math_ceil a = a"

text \<open>\<open>Math.round\<close> rounds to the nearest integer, a tie towards \<open>+\<infinity>\<close>.\<close>

fun Math_round :: "jsnum \<Rightarrow> jsnum" where
  "Math_round (Fin x) = Fin (of_int \<lfloor>x + 1 / 2\<rfloor>)"
| "Math_round a = a"

subsection \<open>Rounding to binary64\<close>

text \<open>
  A positive rational is brought to the form \<open>a * 2 ^ p\<close> with \<open>2 ^ 52 \<le> a < 2 ^ 53\<close>, or
  with \<open>p = - 1074\<close> and \<open>a < 2 ^ 52\<close> in the range of the subnormal numbers; \<open>a\<close> is
  rounded to the nearest integer, a tie to the even one; a result of \<open>2 ^ 1024\<close> or more
  is an infinity.
\<close>

function scale_down :: "rat \<Rightarrow> int \<Rightarrow> rat \<times> int" where
  "scale_down a p = (if 2 ^ 53 \<le> a then scale_down (a / 2) (p + 1) else (a, p))"
  by pat_completeness auto
termination
proof (relation "measure (\<lambda>(a, p). nat \<lfloor>a\<rfloor>)", goal_cases)
  case 1
  show ?case by simp
next
  case (2 a p)
  then have "2 \<le> a" by (simp add: order_trans [of 2 "2 ^ 53" a])
  then have "\<lfloor>a / 2\<rfloor> < \<lfloor>a\<rfloor>"
    by (simp add: floor_less_iff) linarith
  moreover from \<open>2 \<le> a\<close> have "0 < \<lfloor>a\<rfloor>" by (simp add: floor_less_iff less_floor_iff)
  ultimately show ?case by simp
qed

function scale_up :: "rat \<Rightarrow> int \<Rightarrow> rat \<times> int" where
  "scale_up a p = (if a < 2 ^ 52 \<and> - 1074 < p then scale_up (2 * a) (p - 1) else (a, p))"
  by pat_completeness auto
termination
  by (relation "measure (\<lambda>(a, p). nat (p + 1074))") auto

declare scale_down.simps [simp del] scale_up.simps [simp del]

definition round_half_even :: "rat \<Rightarrow> int" where
  "round_half_even a =
     (let m = \<lfloor>a\<rfloor>; r = a - of_int m
      in if r < 1 / 2 then m else if 1 / 2 < r then m + 1 else if even m then m else m + 1)"

definition pow2 :: "int \<Rightarrow> rat" where
  "pow2 p = (if 0 \<le> p then 2 ^ nat p else 1 / 2 ^ nat (- p))"

definition binary64 :: rounding where
  "binary64 q =
     (if q = 0 then Fin 0
      else
        (case scale_down \<bar>q\<bar> 0 of
           (a1, p1) \<Rightarrow>
             (case scale_up a1 p1 of
                (a, p) \<Rightarrow>
                  (let r = of_int (round_half_even a) * pow2 p
                   in if 2 ^ 1024 \<le> r then (if 0 < q then PosInf else NegInf)
                      else Fin (sgn q * r)))))"

subsection \<open>JSON values\<close>

datatype json =
    JNull
  | JBool bool
  | JNum jsnum
  | JStr jsstring
  | JArr "json list"
  | JObj "(jsstring \<times> json) list"

text \<open>Truthiness of a property that may be missing (\<open>undefined\<close> is \<open>None\<close>).\<close>

fun json_truthy :: "json option \<Rightarrow> bool" where
  "json_truthy None = False"
| "json_truthy (Some JNull) = False"
| "json_truthy (Some (JBool b)) = b"
| "json_truthy (Some (JNum n)) = (n \<noteq> Fin 0 \<and> n \<noteq> NaN)"
| "json_truthy (Some (JStr s)) = (s \<noteq> [])"
| "json_truthy (Some (JArr xs)) = True"
| "json_truthy (Some (JObj kvs)) = True"

text \<open>What a value is after \<open>JSON.stringify\<close> has written it and \<open>JSON.parse\<close> has read
  it back: JSON has no notation for an infinity or NaN, which are written as \<open>null\<close>.\<close>

primrec json_text :: "json \<Rightarrow> json" where
  "json_text JNull = JNull"
| "json_text (JBool b) = JBool b"
| "json_text (JNum n) = (case n of Fin q \<Rightarrow> JNum (Fin q) | _ \<Rightarrow> JNull)"
| "json_text (JStr s) = JStr s"
| "json_text (JArr xs) = JArr (map json_text xs)"
| "json_text (JObj kvs) = JObj (map (map_prod id json_text) kvs)"

text \<open>\<open>v.length\<close> for a truthy value \<open>v\<close>: the number of code units of a string, the number
  of elements of an array, the property of that name of an object, and \<open>undefined\<close> for a
  number or a boolean.  (The program reads it behind a test for truthiness, so never from
  \<open>null\<close>.)\<close>

fun js_length :: "json \<Rightarrow> json option" where
  "js_length (JStr s) = Some (JNum (Fin (of_nat (length s))))"
| "js_length (JArr xs) = Some (JNum (Fin (of_nat (length xs))))"
| "js_length (JObj kvs) = map_of kvs (js ''length'')"
| "js_length v = None"

text \<open>\<open>ToNumber\<close>, which the comparison \<open>x < 6\<close> applies to \<open>x\<close>.  The conversion of a
  string, and of an array or an object by way of its string form, is the parameter
  \<open>conv\<close>.\<close>

fun ToNumber :: "(json \<Rightarrow> jsnum) \<Rightarrow> json option \<Rightarrow> jsnum" where
  "ToNumber conv None = NaN"
| "ToNumber conv (Some JNull) = Fin 0"
| "ToNumber conv (Some (JBool b)) = Fin (if b then 1 else 0)"
| "ToNumber conv (Some (JNum n)) = n"
| "ToNumber conv (Some v) = conv v"

section \<open>The configuration directory\<close>

text \<open>
  The three persisted documents live in \<open>CONFIG_DIR\<close>.  A path of the directory holds
  nothing, a directory, or a file; the text of a file is either the JSON document that
  \<open>JSON.stringify\<close> wrote (\<open>JSON.parse\<close> gives the same value back) or text that
  \<open>JSON.parse\<close> rejects.  The directory itself may be missing, the file system may
  refuse every modification (\<open>read_only\<close>), and it may have no room left for data
  (\<open>no_space\<close>): these are the ways a write fails.
\<close>

datatype 'a node = Absent | Directory | File 'a

datatype 'd content = Garbage | Doc 'd

record session =
  password :: jsstring
  createdAt :: jsstring
  lastAccessedAt :: jsstring

record account =
  name :: jsstring
  token :: jsstring

record config_dir =
  sessions_json :: "(jsstring \<rightharpoonup> session) content node"
  accounts_json :: "account list content node"
  password_json :: "json option content node"

record filesystem =
  read_only :: bool
  no_space :: bool
  CONFIG_DIR :: "config_dir option"

text \<open>A path inside the directory: how to read its node and how to replace it.\<close>

type_synonym 'a path = "(config_dir \<Rightarrow> 'a node) \<times> ('a node \<Rightarrow> config_dir \<Rightarrow> config_dir)"

definition SESSIONS_FILE :: "(jsstring \<rightharpoonup> session) content path" where
  "SESSIONS_FILE = (sessions_json, \<lambda>n d. d\<lparr>sessions_json := n\<rparr>)"

definition ACCOUNTS_FILE :: "account list content path" where
  "ACCOUNTS_FILE = (accounts_json, \<lambda>n d. d\<lparr>accounts_json := n\<rparr>)"

definition PASSWORD_FILE :: "json option content path" where
  "PASSWORD_FILE = (password_json, \<lambda>n d. d\<lparr>password_json := n\<rparr>)"

definition node_at :: "filesystem \<Rightarrow> 'a path \<Rightarrow> 'a node" where
  "node_at fs p = (case CONFIG_DIR fs of None \<Rightarrow> Absent | Some d \<Rightarrow> fst p d)"

definition existsSync :: "filesystem \<Rightarrow> 'a path \<Rightarrow> bool" where
  "existsSync fs p \<longleftrightarrow> node_at fs p \<noteq> Absent"

definition existsSync_dir :: "filesystem \<Rightarrow> bool" where
  "existsSync_dir fs \<longleftrightarrow> CONFIG_DIR fs \<noteq> None"

definition isFile :: "filesystem \<Rightarrow> 'a path \<Rightarrow> bool" where
  "isFile fs p = (case node_at fs p of File t \<Rightarrow> True | _ \<Rightarrow> False)"

definition readFileSync :: "filesystem \<Rightarrow> 'a path \<Rightarrow> js_error + 'a" where
  "readFileSync fs p =
     (case node_at fs p of File t \<Rightarrow> Inr t | Directory \<Rightarrow> Inl EISDIR | Absent \<Rightarrow> Inl ENOENT)"

text \<open>\<open>writeFileSync\<close> opens the file with the flag \<open>w\<close>, which creates it or empties it,
  and then writes the text.  Where the open fails the files are as they were; where there
  is no room for the text the write fails after the open and leaves an empty file, which
  \<open>JSON.parse\<close> rejects.  A failed call gives the error and the files it leaves.\<close>

definition writeFileSync ::
  "filesystem \<Rightarrow> 'd content path \<Rightarrow> 'd content \<Rightarrow> (js_error \<times> filesystem) + filesystem" where
  "writeFileSync fs p t =
     (if read_only fs then Inl (EROFS, fs)
      else
        (case CONFIG_DIR fs of
           None \<Rightarrow> Inl (ENOENT, fs)
         | Some d \<Rightarrow>
             (if fst p d = Directory then Inl (EISDIR, fs)
              else if no_space fs
                then Inl (ENOSPC, fs\<lparr>CONFIG_DIR := Some (snd p (File Garbage) d)\<rparr>)
              else Inr (fs\<lparr>CONFIG_DIR := Some (snd p (File t) d)\<rparr>))))"

definition rmSync :: "filesystem \<Rightarrow> 'a path \<Rightarrow> js_error + filesystem" where
  "rmSync fs p =
     (if read_only fs then Inl EROFS
      else
        (case CONFIG_DIR fs of
           None \<Rightarrow> Inl ENOENT
         | Some d \<Rightarrow>
             (if fst p d = Absent then Inl ENOENT
              else Inr (fs\<lparr>CONFIG_DIR := Some (snd p Absent d)\<rparr>))))"

definition mkdirSync :: "filesystem \<Rightarrow> js_error + filesystem" where
  "mkdirSync fs =
     (if CONFIG_DIR fs \<noteq> None then Inr fs
      else if read_only fs then Inl EROFS
      else Inr (fs\<lparr>CONFIG_DIR :=
             Some \<lparr>sessions_json = Absent, accounts_json = Absent, password_json = Absent\<rparr>\<rparr>))"

definition JSON_stringify :: "'d \<Rightarrow> 'd content" where
  "JSON_stringify d = Doc d"

definition JSON_parse :: "'d content \<Rightarrow> js_error + 'd" where
  "JSON_parse t = (case t of Garbage \<Rightarrow> Inl SyntaxError | Doc d \<Rightarrow> Inr d)"

section \<open>The server state\<close>

text \<open>
  The module-level \<open>sessions\<close> object (created without a prototype, so it is a plain
  finite map), the files, and the environment variable \<open>ADMIN_PASSWORD\<close>.  Writes to the
  console are not modelled.
\<close>

record server =
  sessions :: "jsstring \<rightharpoonup> session"
  disk :: filesystem
  ADMIN_PASSWORD :: "jsstring option"

subsection \<open>Sessions (server.js, lines 49-132)\<close>

text \<open>\<open>Object.assign(sessions, loaded)\<close> copies every own property of \<open>loaded\<close> into
  \<open>sessions\<close>, replacing a property of the same name: the map override \<open>++\<close>.\<close>

definition loadSessions :: "server \<Rightarrow> server" where
  "loadSessions s =
     (if existsSync (disk s) SESSIONS_FILE then
        (case readFileSync (disk s) SESSIONS_FILE of
           Inl e \<Rightarrow> s
         | Inr data \<Rightarrow>
             (case JSON_parse data of
                Inl e \<Rightarrow> s
              | Inr loaded \<Rightarrow> s\<lparr>sessions := sessions s ++ loaded\<rparr>))
      else s)"

definition saveSessions :: "server \<Rightarrow> server" where
  "saveSessions s =
     (case writeFileSync (disk s) SESSIONS_FILE (JSON_stringify (sessions s)) of
        Inl (e, fs') \<Rightarrow> s\<lparr>disk := fs'\<rparr>
      | Inr fs' \<Rightarrow> s\<lparr>disk := fs'\<rparr>)"

text \<open>\<open>Buffer.toString('hex')\<close>: two lower-case hexadecimal digits per byte.\<close>

definition hex_char :: "nat \<Rightarrow> nat" where
  "hex_char d = (if d < 10 then 0x30 + d else 0x61 + (d - 10))"

definition toString_hex :: "nat list \<Rightarrow> jsstring" where
  "toString_hex bytes = concat (map (\<lambda>b. [hex_char (b div 16), hex_char (b mod 16)]) bytes)"

text \<open>\<open>createSession\<close>: \<open>randomBytes\<close> is the result of \<open>crypto.randomBytes(24)\<close>, and
  \<open>now1\<close>, \<open>now2\<close> are the two readings of the clock.\<close>

definition createSession ::
  "nat list \<Rightarrow> jsstring \<Rightarrow> jsstring \<Rightarrow> jsstring \<Rightarrow> server \<Rightarrow> jsstring \<times> server" where
  "createSession randomBytes now1 now2 pw s =
     (let sid = toString_hex randomBytes;
          s1 = s\<lparr>sessions := (sessions s)(sid \<mapsto>
                 \<lparr>password = pw, createdAt = now1, lastAccessedAt = now2\<rparr>)\<rparr>;
          s2 = saveSessions s1
      in (sid, s2))"

definition getSession ::
  "request \<Rightarrow> jsstring \<Rightarrow> server \<Rightarrow> (js_error + (jsstring \<times> session) option) \<times> server" where
  "getSession req now s =
     (case parseCookies req of
        Inl e \<Rightarrow> (Inl e, s)
      | Inr cookies \<Rightarrow>
          (let sid = cookies (js ''sid'') in
           if \<not> truthy sid then (Inr None, s)
           else
             (case sessions s (the sid) of
                None \<Rightarrow> (Inr None, s)
              | Some session \<Rightarrow>
                  (let session' = session\<lparr>lastAccessedAt := now\<rparr>;
                       s1 = saveSessions (s\<lparr>sessions := (sessions s)(the sid \<mapsto> session')\<rparr>)
                   in (Inr (Some (the sid, session')), s1)))))"

definition destroySession :: "request \<Rightarrow> server \<Rightarrow> (js_error + bool) \<times> server" where
  "destroySession req s =
     (case parseCookies req of
        Inl e \<Rightarrow> (Inl e, s)
      | Inr cookies \<Rightarrow>
          (let sid = cookies (js ''sid'') in
           if truthy sid \<and> sessions s (the sid) \<noteq> None
           then (Inr True, saveSessions (s\<lparr>sessions := (sessions s)(the sid := None)\<rparr>))
           else (Inr False, s)))"

subsection \<open>The admin password (server.js, lines 233-300)\<close>

text \<open>The document of \<open>password.json\<close> is an object; its \<open>password\<close> property is
  whatever was saved, or missing.  What \<open>loadAdminPassword\<close> returns is the string of the
  environment, the property of the file, or \<open>null\<close>, here \<open>None\<close> like a missing
  property.\<close>

definition loadAdminPassword :: "server \<Rightarrow> json option \<times> server" where
  "loadAdminPassword s =
     (if truthy (ADMIN_PASSWORD s) then (map_option JStr (ADMIN_PASSWORD s), s)
      else if existsSync (disk s) PASSWORD_FILE then
        (if \<not> isFile (disk s) PASSWORD_FILE then
           (case rmSync (disk s) PASSWORD_FILE of
              Inl e \<Rightarrow> (None, s)
            | Inr fs' \<Rightarrow> (None, s\<lparr>disk := fs'\<rparr>))
         else
           (case readFileSync (disk s) PASSWORD_FILE of
              Inl e \<Rightarrow> (None, s)
            | Inr data \<Rightarrow>
                (case JSON_parse data of
                   Inl e \<Rightarrow> (None, s)
                 | Inr parsed \<Rightarrow> (parsed, s))))
      else (None, s))"

definition isPasswordSavedToFile :: "server \<Rightarrow> bool" where
  "isPasswordSavedToFile s =
     (if existsSync (disk s) PASSWORD_FILE then
        (if \<not> isFile (disk s) PASSWORD_FILE then False
         else
           (case readFileSync (disk s) PASSWORD_FILE of
              Inl e \<Rightarrow> False
            | Inr data \<Rightarrow>
                (case JSON_parse data of
                   Inl e \<Rightarrow> False
                 | Inr parsed \<Rightarrow> json_truthy parsed)))
      else False)"

definition saveAdminPassword :: "json \<Rightarrow> server \<Rightarrow> bool \<times> server" where
  "saveAdminPassword pw s =
     (case (if \<not> existsSync_dir (disk s) then mkdirSync (disk s) else Inr (disk s)) of
        Inl e \<Rightarrow> (False, s)
      | Inr fs1 \<Rightarrow>
          (case (if existsSync fs1 PASSWORD_FILE \<and> \<not> isFile fs1 PASSWORD_FILE
                 then rmSync fs1 PASSWORD_FILE else Inr fs1) of
             Inl e \<Rightarrow> (False, s\<lparr>disk := fs1\<rparr>)
           | Inr fs2 \<Rightarrow>
               (case writeFileSync fs2 PASSWORD_FILE (JSON_stringify (Some (json_text pw))) of
                  Inl (e, fs3) \<Rightarrow> (False, s\<lparr>disk := fs3\<rparr>)
                | Inr fs3 \<Rightarrow> (True, s\<lparr>disk := fs3\<rparr>))))"

subsection \<open>The account catalog (server.js, lines 189-231)\<close>

definition loadServerAccounts :: "server \<Rightarrow> account list \<times> server" where
  "loadServerAccounts s =
     (if existsSync (disk s) ACCOUNTS_FILE then
        (if \<not> isFile (disk s) ACCOUNTS_FILE then
           (case rmSync (disk s) ACCOUNTS_FILE of
              Inl e \<Rightarrow> ([], s)
            | Inr fs' \<Rightarrow> ([], s\<lparr>disk := fs'\<rparr>))
         else
           (case readFileSync (disk s) ACCOUNTS_FILE of
              Inl e \<Rightarrow> ([], s)
            | Inr data \<Rightarrow>
                (case JSON_parse data of
                   Inl e \<Rightarrow> ([], s)
                 | Inr parsed \<Rightarrow> (parsed, s))))
      else ([], s))"

definition saveServerAccounts :: "account list \<Rightarrow> server \<Rightarrow> bool \<times> server" where
  "saveServerAccounts accounts s =
     (case (if \<not> existsSync_dir (disk s) then mkdirSync (disk s) else Inr (disk s)) of
        Inl e \<Rightarrow> (False, s)
      | Inr fs1 \<Rightarrow>
          (case (if existsSync fs1 ACCOUNTS_FILE \<and> \<not> isFile fs1 ACCOUNTS_FILE
                 then rmSync fs1 ACCOUNTS_FILE else Inr fs1) of
             Inl e \<Rightarrow> (False, s\<lparr>disk := fs1\<rparr>)
           | Inr fs2 \<Rightarrow>
               (case writeFileSync fs2 ACCOUNTS_FILE (JSON_stringify accounts) of
                  Inl (e, fs3) \<Rightarrow> (False, s\<lparr>disk := fs3\<rparr>)
                | Inr fs3 \<Rightarrow> (True, s\<lparr>disk := fs3\<rparr>))))"

section \<open>The auth gate (server.js, lines 135-172)\<close>

text \<open>What a handler does with a request: hand it on (\<open>next()\<close>), answer with a status
  and a JSON body, or leave by an exception, which Express turns into its own error
  response.\<close>

datatype 'b outcome = Next | Respond nat 'b | Threw js_error

text \<open>The JSON bodies of the auth and password endpoints.\<close>

datatype body =
    SuccessError bool jsstring
  | ErrorOnly jsstring
  | SuccessOnly bool

definition msg_unauthenticated :: jsstring where
  "msg_unauthenticated =
     [0x672A, 0x8BA4, 0x8BC1, 0xFF0C, 0x8BF7, 0x91CD, 0x65B0, 0x767B, 0x5F55]"

text \<open>\<open>password === savedPassword\<close> compares the header, a string or \<open>undefined\<close>, with a
  truthy value: they are equal if the value is that same string.\<close>

definition requireAuth :: "request \<Rightarrow> jsstring \<Rightarrow> server \<Rightarrow> body outcome \<times> server" where
  "requireAuth req now s =
     (case getSession req now s of
        (Inl e, s1) \<Rightarrow> (Threw e, s1)
      | (Inr (Some session), s1) \<Rightarrow> (Next, s1)
      | (Inr None, s1) \<Rightarrow>
          (let authHeader = authorization req in
           if truthy authHeader \<and> startsWith (the authHeader) (js ''Bearer '')
              \<and> sessions s1 (drop 7 (the authHeader)) \<noteq> None
           then
             (let sessionId = drop 7 (the authHeader);
                  session' = (the (sessions s1 sessionId))\<lparr>lastAccessedAt := now\<rparr>
              in (Next, saveSessions (s1\<lparr>sessions := (sessions s1)(sessionId \<mapsto> session')\<rparr>)))
           else
             (let pw = x_admin_password req;
                  (savedPassword, s2) = loadAdminPassword s1
              in if \<not> json_truthy savedPassword then (Next, s2)
                 else if map_option JStr pw = savedPassword then (Next, s2)
                 else (Respond 401 (SuccessError False msg_unauthenticated), s2))))"

section \<open>Setting the password (server.js, lines 769-792)\<close>

definition msg_env_password :: jsstring where
  "msg_env_password =
     [0x5BC6, 0x7801, 0x5DF2, 0x901A, 0x8FC7, 0x73AF, 0x5883, 0x53D8, 0x91CF, 0x8BBE, 0x7F6E,
      0xFF0C, 0x65E0, 0x6CD5, 0x4FEE, 0x6539]"

definition msg_already_set :: jsstring where
  "msg_already_set =
     [0x5BC6, 0x7801, 0x5DF2, 0x8BBE, 0x7F6E, 0xFF0C, 0x65E0, 0x6CD5, 0x91CD, 0x590D, 0x8BBE,
      0x7F6E]"

definition msg_too_short :: jsstring where
  "msg_too_short = [0x5BC6, 0x7801, 0x957F, 0x5EA6, 0x81F3, 0x5C11, 0x36, 0x4F4D]"

definition msg_save_failed :: jsstring where
  "msg_save_failed = [0x4FDD, 0x5B58, 0x5BC6, 0x7801, 0x5931, 0x8D25]"

text \<open>The handler of \<open>POST /api/set-password\<close>; \<open>candidate\<close> is \<open>req.body.password\<close>: any
  value of the JSON body, or missing.  \<open>password.length < 6\<close> converts the length to a
  number and is false where that is NaN.\<close>

definition set_password ::
  "(json \<Rightarrow> jsnum) \<Rightarrow> json option \<Rightarrow> server \<Rightarrow> body outcome \<times> server" where
  "set_password conv candidate s =
     (if truthy (ADMIN_PASSWORD s) then (Respond 400 (ErrorOnly msg_env_password), s)
      else if isPasswordSavedToFile s then (Respond 400 (ErrorOnly msg_already_set), s)
      else if \<not> json_truthy candidate
              \<or> js_gt (Fin 6) (ToNumber conv (js_length (the candidate)))
        then (Respond 400 (ErrorOnly msg_too_short), s)
      else
        (case saveAdminPassword (the candidate) s of
           (True, s') \<Rightarrow> (Respond 200 (SuccessOnly True), s')
         | (False, s') \<Rightarrow> (Respond 500 (ErrorOnly msg_save_failed), s')))"

section \<open>The upstream platform\<close>

text \<open>
  The remote GraphQL service is the environment.  For one account it is given by how the
  requests settle.  \<open>queries\<close> is the settled \<open>Promise.all\<close> of the four \<open>queryZeabur\<close>
  calls of \<open>fetchAccountData\<close>: rejected with the reason of the query that failed first (a
  connection error, \<open>Request timeout\<close> or \<open>Invalid JSON response\<close>), or fulfilled with the
  four parsed bodies, given by the properties the source reads from them.  \<open>usage\<close> is the
  event that ends the usage request of \<open>fetchUsageData\<close>.
\<close>

record account_bodies =
  me :: "(jsstring \<rightharpoonup> json) option"
  edges :: "json list option"
  aihubTenant :: "json option"
  serviceCostsThisMonth :: "jsnum option"

record usage_entry =
  id' :: jsstring
  usageOfEntity :: "jsnum list"

text \<open>The end of an HTTPS request: the \<open>error\<close> event, the \<open>timeout\<close> event, or the \<open>end\<close>
  of the response, whose body is then parsed: \<open>None\<close> when the \<open>try\<close> block around
  \<open>JSON.parse\<close> and the reading of the result throws, otherwise the value read.\<close>

datatype 'a reply = ErrorEvent js_error | TimeoutEvent | End "'a option"

record upstream =
  queries :: "js_error + account_bodies"
  usage :: "usage_entry list option reply"

subsection \<open>fetchAccountData (server.js, lines 341-425)\<close>

record account_data =
  user :: "jsstring \<rightharpoonup> json"
  projects :: "json option list"
  aihub :: json
  serviceCosts :: jsnum

text \<open>\<open>e.node\<close> for an edge \<open>e\<close>: reading a property of \<open>null\<close> throws.\<close>

fun node_of :: "json \<Rightarrow> js_error + json option" where
  "node_of JNull = Inl TypeError"
| "node_of (JObj kvs) = Inr (map_of kvs (js ''node''))"
| "node_of e = Inr None"

fun map_node :: "json list \<Rightarrow> js_error + json option list" where
  "map_node [] = Inr []"
| "map_node (e # es) =
     (case node_of e of
        Inl err \<Rightarrow> Inl err
      | Inr n \<Rightarrow> (case map_node es of Inl err \<Rightarrow> Inl err | Inr ns \<Rightarrow> Inr (n # ns)))"

definition fetchAccountData :: "js_error + account_bodies \<Rightarrow> js_error + account_data" where
  "fetchAccountData settled =
     (case settled of
        Inl e \<Rightarrow> Inl e
      | Inr b \<Rightarrow>
          (case (case edges b of None \<Rightarrow> Inr [] | Some es \<Rightarrow> map_node es) of
             Inl e \<Rightarrow> Inl e
           | Inr nodes \<Rightarrow>
               Inr \<lparr>user = (case me b of None \<Rightarrow> Map.empty | Some u \<Rightarrow> u),
                    projects = nodes,
                    aihub = (if json_truthy (aihubTenant b) then the (aihubTenant b) else JObj []),
                    serviceCosts =
                      (case serviceCostsThisMonth b of
                         None \<Rightarrow> Fin 0
                       | Some c \<Rightarrow> if c = Fin 0 \<or> c = NaN then Fin 0 else c)\<rparr>))"

subsection \<open>fetchUsageData (server.js, lines 436-533)\<close>

record usage_snapshot =
  projectCosts :: "jsstring \<rightharpoonup> jsnum"
  totalUsage :: jsnum
  freeQuotaRemaining :: jsnum
  freeQuotaLimit :: jsnum

text \<open>\<open>project.usageOfEntity.reduce((a, b) => a + b, 0)\<close>.\<close>

definition projectTotal :: "rounding \<Rightarrow> usage_entry \<Rightarrow> jsnum" where
  "projectTotal fl project = foldl (jsadd fl) (Fin 0) (usageOfEntity project)"

definition displayCost :: "rounding \<Rightarrow> jsnum \<Rightarrow> jsnum" where
  "displayCost fl tot =
     (if js_gt tot (Fin 0) then jsdiv fl (Math_ceil (jsmul fl tot (Fin 100))) (Fin 100)
      else Fin 0)"

text \<open>The \<open>forEach\<close> over \<open>usages\<close>, on the two variables it updates.  \<open>projectCosts\<close> is
  an ordinary object: the assignment of a number to its property \<open>__proto__\<close> goes to the
  setter of \<open>Object.prototype\<close>, which stores nothing.\<close>

fun usages_forEach ::
  "rounding \<Rightarrow> usage_entry list \<Rightarrow> (jsstring \<rightharpoonup> jsnum) \<times> jsnum \<Rightarrow> (jsstring \<rightharpoonup> jsnum) \<times> jsnum"
  where
  "usages_forEach fl [] vars = vars"
| "usages_forEach fl (project # rest) (costs, tot) =
     usages_forEach fl rest
       (if id' project = js ''__proto__'' then costs
        else costs(id' project \<mapsto> displayCost fl (projectTotal fl project)),
        jsadd fl tot (projectTotal fl project))"

definition usage_report :: "rounding \<Rightarrow> usage_entry list \<Rightarrow> usage_snapshot" where
  "usage_report fl usages =
     (case usages_forEach fl usages (Map.empty, Fin 0) of
        (costs, tot) \<Rightarrow>
          \<lparr>projectCosts = costs,
           totalUsage = tot,
           freeQuotaRemaining = jssub fl (Fin 5) tot,
           freeQuotaLimit = Fin 5\<rparr>)"

definition fetchUsageData ::
  "rounding \<Rightarrow> usage_entry list option reply \<Rightarrow> js_error + usage_snapshot" where
  "fetchUsageData fl r =
     (case r of
        ErrorEvent e \<Rightarrow> Inl e
      | TimeoutEvent \<Rightarrow> Inl (Error (js ''Request timeout''))
      | End None \<Rightarrow> Inl (Error (js ''Invalid JSON response''))
      | End (Some result) \<Rightarrow>
          Inr (usage_report fl (case result of None \<Rightarrow> [] | Some usages \<Rightarrow> usages)))"

section \<open>The batch endpoint (server.js, lines 536-594)\<close>

datatype account_result =
    Success jsstring "jsstring \<rightharpoonup> json" json
  | Failure jsstring js_error

text \<open>The usage data an account ends with: the literal of line 553 unless the user has
  an id and the usage request succeeds.\<close>

definition default_usage :: usage_snapshot where
  "default_usage =
     \<lparr>projectCosts = Map.empty, totalUsage = Fin 0, freeQuotaRemaining = Fin 5,
      freeQuotaLimit = Fin 5\<rparr>"

definition usageData :: "rounding \<Rightarrow> upstream \<Rightarrow> (jsstring \<rightharpoonup> json) \<Rightarrow> usage_snapshot" where
  "usageData fl up u =
     (if json_truthy (u (js ''_id'')) then
        (case fetchUsageData fl (usage up) of Inl e \<Rightarrow> default_usage | Inr d \<Rightarrow> d)
      else default_usage)"

definition creditInCents :: "rounding \<Rightarrow> usage_snapshot \<Rightarrow> jsnum" where
  "creditInCents fl d = Math_round (jsmul fl (freeQuotaRemaining d) (Fin 100))"

text \<open>The \<open>async\<close> function mapped over the accounts, as the way its promise settles:
  \<open>Inl\<close> a rejection, \<open>Inr\<close> the value it is fulfilled with.\<close>

definition account_task :: "rounding \<Rightarrow> upstream \<Rightarrow> account \<Rightarrow> js_error + account_result" where
  "account_task fl up a =
     (case fetchAccountData (queries up) of
        Inl error \<Rightarrow> Inr (Failure (name a) error)
      | Inr d \<Rightarrow>
          (let ud = usageData fl up (user d) in
           Inr (Success (name a)
                 ((user d)
                    (js ''credit'' \<mapsto> JNum (creditInCents fl ud),
                     js ''totalUsage'' \<mapsto> JNum (totalUsage ud),
                     js ''totalCost'' \<mapsto> JNum (totalUsage ud),
                     js ''freeQuotaLimit'' \<mapsto> JNum (freeQuotaLimit ud)))
                 (aihub d))))"

text \<open>The value that the promise of an account's task is fulfilled with.  The task
  catches every exception of its body and its handler raises none, so the promise is never
  rejected (\<open>account_task_fulfilled\<close> below); the second case is there for totality.\<close>

definition fulfilled :: "rounding \<Rightarrow> upstream \<Rightarrow> account \<Rightarrow> account_result" where
  "fulfilled fl up a = (case account_task fl up a of Inr r \<Rightarrow> r | Inl e \<Rightarrow> Failure (name a) e)"

text \<open>\<open>Promise.all\<close> over settled promises: fulfilled with all the values in the order of
  the list, or rejected as soon as one is (here the first of the list).\<close>

fun Promise_all :: "('e + 'a) list \<Rightarrow> 'e + 'a list" where
  "Promise_all [] = Inr []"
| "Promise_all (Inl e # ps) = Inl e"
| "Promise_all (Inr x # ps) =
     (case Promise_all ps of Inl e \<Rightarrow> Inl e | Inr xs \<Rightarrow> Inr (x # xs))"

datatype batch_body =
    Results "account_result list"
  | InvalidAccountList
  | ServerError js_error

text \<open>The handler; \<open>accounts\<close> is \<open>req.body.accounts\<close>, an array or missing, and \<open>net i\<close> is
  what the platform answers to the requests of the account at position \<open>i\<close>.\<close>

definition temp_accounts ::
  "rounding \<Rightarrow> (nat \<Rightarrow> upstream) \<Rightarrow> account list option \<Rightarrow> batch_body outcome" where
  "temp_accounts fl net accounts =
     (case accounts of
        None \<Rightarrow> Respond 400 InvalidAccountList
      | Some accs \<Rightarrow>
          (case Promise_all (map (\<lambda>(i, a). account_task fl (net i) a) (enumerate 0 accs)) of
             Inl error \<Rightarrow> Respond 500 (ServerError error)
           | Inr results \<Rightarrow> Respond 200 (Results results)))"

section \<open>The credential channels, as the specification names them\<close>

text \<open>
  The four conditions under which a request counts as authenticated.  They are written
  from the specification's wording and are compared with \<open>requireAuth\<close> below.  The
  configured admin password is what \<open>loadAdminPassword\<close> returns: the environment variable
  if it is non-empty, otherwise the password of the password file.
\<close>

definition cookie_session :: "request \<Rightarrow> server \<Rightarrow> bool" where
  "cookie_session req s =
     (case parseCookies req of
        Inl e \<Rightarrow> False
      | Inr cookies \<Rightarrow>
          (case cookies (js ''sid'') of
             None \<Rightarrow> False
           | Some sid \<Rightarrow> sid \<noteq> [] \<and> sessions s sid \<noteq> None))"

definition bearer_session :: "request \<Rightarrow> server \<Rightarrow> bool" where
  "bearer_session req s =
     (case authorization req of
        None \<Rightarrow> False
      | Some h \<Rightarrow> startsWith h (js ''Bearer '') \<and> sessions s (drop 7 h) \<noteq> None)"

definition configured_password :: "server \<Rightarrow> json option" where
  "configured_password s = fst (loadAdminPassword s)"

definition header_password :: "request \<Rightarrow> server \<Rightarrow> bool" where
  "header_password req s \<longleftrightarrow>
     json_truthy (configured_password s)
     \<and> map_option JStr (x_admin_password req) = configured_password s"


text \<open>The amount \<open>t\<close> rounded up to the next multiple of \<open>0.01\<close>.\<close>

definition rounded_up_to_cent :: "rat \<Rightarrow> rat" where
  "rounded_up_to_cent t = of_int \<lceil>t * 100\<rceil> / 100"

section \<open>Concrete inputs\<close>

text \<open>A server on its first start: nothing in memory, no configuration directory, no
  environment password.\<close>

definition server0 :: server where
  "server0 =
     \<lparr>sessions = Map.empty,
      disk = \<lparr>read_only = False, no_space = False, CONFIG_DIR = None\<rparr>,
      ADMIN_PASSWORD = None\<rparr>"

definition empty_dir :: config_dir where
  "empty_dir = \<lparr>sessions_json = Absent, accounts_json = Absent, password_json = Absent\<rparr>"

definition server_with_password :: server where
  "server_with_password =
     server0\<lparr>disk := \<lparr>read_only = False, no_space = False, CONFIG_DIR =
       Some (empty_dir\<lparr>password_json := File (Doc (Some (JStr (js ''hunter22''))))\<rparr>)\<rparr>\<rparr>"

text \<open>The password comes from the environment and the configuration directory was
  never created.\<close>

definition server_env_password :: server where
  "server_env_password = server0\<lparr>ADMIN_PASSWORD := Some (js ''secret'')\<rparr>"

text \<open>The variable is set, to the empty string.\<close>

definition server_empty_env :: server where
  "server_empty_env = server0\<lparr>ADMIN_PASSWORD := Some []\<rparr>"

definition server_ready :: server where
  "server_ready =
     server_env_password\<lparr>disk :=
       \<lparr>read_only = False, no_space = False, CONFIG_DIR = Some empty_dir\<rparr>\<rparr>"

definition server_read_only :: server where
  "server_read_only =
     server_env_password\<lparr>disk :=
       \<lparr>read_only = True, no_space = False, CONFIG_DIR = Some empty_dir\<rparr>\<rparr>"

definition random24 :: "nat list" where
  "random24 =
     [0x3F, 0xA1, 0x07, 0xC4, 0x5E, 0x90, 0x12, 0xBD, 0x66, 0x08, 0xF3, 0x2A,
      0x71, 0xEE, 0x4B, 0x9C, 0x05, 0xD8, 0x33, 0xAF, 0x60, 0x1B, 0xC7, 0x84]"

definition sid24 :: jsstring where
  "sid24 = js ''3fa107c45e9012bd6608f32a71ee4b9c05d833af601bc784''"

definition clock0 :: jsstring where
  "clock0 = js ''2026-01-01T00:00:00.000Z''"

definition clock1 :: jsstring where
  "clock1 = js ''2026-01-01T00:00:00.001Z''"

definition session24 :: session where
  "session24 = \<lparr>password = js ''secret'', createdAt = clock0, lastAccessedAt = clock1\<rparr>"

definition session_old :: session where
  "session_old = \<lparr>password = js ''secret'', createdAt = clock0, lastAccessedAt = clock0\<rparr>"

text \<open>A server at its start: the map of line 49 is empty, and the sessions file holds
  the ids \<open>a\<close> and \<open>b\<close>.\<close>

definition server_restart :: server where
  "server_restart =
     \<lparr>sessions = Map.empty,
      disk = \<lparr>read_only = False, no_space = False, CONFIG_DIR = Some (empty_dir\<lparr>sessions_json :=
         File (Doc [js ''a'' \<mapsto> session_old, js ''b'' \<mapsto> session_old])\<rparr>)\<rparr>,
      ADMIN_PASSWORD = None\<rparr>"

text \<open>The same files on a full disk, with the variable set.\<close>

definition server_full :: server where
  "server_full =
     server_restart\<lparr>disk := (disk server_restart)\<lparr>no_space := True\<rparr>,
       ADMIN_PASSWORD := Some (js ''secret'')\<rparr>"

definition malformed_cookie :: request where
  "malformed_cookie =
     \<lparr>cookie = Some (js ''sid=%''), authorization = None, x_admin_password = None\<rparr>"

definition alice :: account where
  "alice = \<lparr>name = js ''alice'', token = js ''sk-alice''\<rparr>"

definition bob :: account where
  "bob = \<lparr>name = js ''bob'', token = js ''sk-bob''\<rparr>"

text \<open>One session in memory, and a directory where \<open>accounts.json\<close> should be.\<close>

definition server_dir_at_accounts :: server where
  "server_dir_at_accounts =
     server0\<lparr>sessions := [sid24 \<mapsto> session24],
       disk := \<lparr>read_only = False, no_space = False,
                CONFIG_DIR = Some (empty_dir\<lparr>accounts_json := Directory\<rparr>)\<rparr>\<rparr>"

text \<open>The rounding that changes nothing.  It agrees with binary64 rounding on every
  value binary64 represents; the usage values below are such values.\<close>

definition exact :: rounding where
  "exact q = Fin q"

definition two_projects :: "usage_entry list" where
  "two_projects =
     [\<lparr>id' = js ''p1'', usageOfEntity = [Fin (1 / 2), Fin (1 / 4)]\<rparr>,
      \<lparr>id' = js ''p2'', usageOfEntity = [Fin (1 / 8)]\<rparr>]"

text \<open>One project with one day of usage: the JSON numbers \<open>0.07\<close> and \<open>0.01\<close>, which
  \<open>JSON.parse\<close> reads as the nearest binary64 values.\<close>

definition seven_cents :: "usage_entry list" where
  "seven_cents = [\<lparr>id' = js ''p1'', usageOfEntity = [binary64 (7 / 100)]\<rparr>]"

definition one_cent :: "usage_entry list" where
  "one_cent = [\<lparr>id' = js ''p1'', usageOfEntity = [binary64 (1 / 100)]\<rparr>]"

definition over_quota :: "usage_entry list" where
  "over_quota = [\<lparr>id' = js ''p1'', usageOfEntity = [Fin 5, Fin (1 / 2)]\<rparr>]"

definition alice_bodies :: account_bodies where
  "alice_bodies =
     \<lparr>me = Some [js ''_id'' \<mapsto> JStr (js ''u1''), js ''username'' \<mapsto> JStr (js ''alice''),
                 js ''credit'' \<mapsto> JNum (Fin 12345)],
      edges = Some [],
      aihubTenant = None,
      serviceCostsThisMonth = None\<rparr>"

definition upstream_ok :: upstream where
  "upstream_ok = \<lparr>queries = Inr alice_bodies, usage = End (Some (Some two_projects))\<rparr>"

definition upstream_usage_down :: upstream where
  "upstream_usage_down = \<lparr>queries = Inr alice_bodies, usage = TimeoutEvent\<rparr>"

definition upstream_rejects :: upstream where
  "upstream_rejects =
     \<lparr>queries = Inl (Error (js ''Invalid JSON response'')), usage = TimeoutEvent\<rparr>"

definition net2 :: "nat \<Rightarrow> upstream" where
  "net2 i = (if i = 0 then upstream_ok else upstream_rejects)"

definition net_usage_down_first :: "nat \<Rightarrow> upstream" where
  "net_usage_down_first i = (if i = 0 then upstream_usage_down else upstream_ok)"

section \<open>Evaluation\<close>

text \<open>The unfoldings that evaluate the model on a concrete input.\<close>

lemmas fs_defs =
  node_at_def existsSync_def existsSync_dir_def isFile_def readFileSync_def writeFileSync_def
  rmSync_def mkdirSync_def JSON_stringify_def JSON_parse_def SESSIONS_FILE_def
  ACCOUNTS_FILE_def PASSWORD_FILE_def

lemmas cookie_defs =
  parseCookies_def trim_def is_white_space_def ParseHexOctet_def hex_digit_def
  leading_ones_def utf8_value_def is_cont_def UTF16EncodeCodePoint_def continuation.simps

lemmas server_defs =
  server0_def empty_dir_def server_with_password_def server_env_password_def
  server_ready_def server_read_only_def server_restart_def server_full_def
  server_empty_env_def server_dir_at_accounts_def

lemma toString_hex_random24: "toString_hex random24 = sid24"
  by (simp add: toString_hex_def random24_def sid24_def hex_char_def js_def)

section \<open>The auth gate\<close>

lemma startsWith_Bearer_nonempty: "startsWith h (js ''Bearer '') \<Longrightarrow> h \<noteq> []"
  by (auto simp: startsWith_def js_def)

lemma getSession_without_cookie_session:
  assumes "parseCookies req = Inr cookies" and "\<not> cookie_session req s"
  shows "getSession req now s = (Inr None, s)"
  using assms
  by (cases "cookies (js ''sid'')"; cases "sessions s (the (cookies (js ''sid'')))")
     (simp_all add: getSession_def cookie_session_def Let_def)

lemma getSession_with_cookie_session:
  assumes "parseCookies req = Inr cookies" and "cookie_session req s"
  shows "\<exists>r. fst (getSession req now s) = Inr (Some r)"
  using assms
  by (cases "cookies (js ''sid'')"; cases "sessions s (the (cookies (js ''sid'')))")
     (simp_all add: getSession_def cookie_session_def Let_def)

text \<open>
  Whenever the \<open>Cookie\<close> header decodes, the gate lets the request pass exactly if one of
  the four channels matches, and answers 401 with a JSON body otherwise.  The order in
  which the source tries the channels (cookie, bearer, no password, header password) does
  not show in the result.
\<close>

lemma requireAuth_decides:
  assumes "parseCookies req = Inr cookies"
  shows "fst (requireAuth req now s) =
     (if cookie_session req s \<or> bearer_session req s \<or> header_password req s
         \<or> \<not> json_truthy (configured_password s)
      then Next else Respond 401 (SuccessError False msg_unauthenticated))"
proof (cases "cookie_session req s")
  case True
  from getSession_with_cookie_session [OF assms True, of now] obtain r where
    "fst (getSession req now s) = Inr (Some r)" by blast
  then have "fst (requireAuth req now s) = Next"
    by (cases "getSession req now s") (simp add: requireAuth_def)
  with True show ?thesis by simp
next
  case False
  note g = getSession_without_cookie_session [OF assms False, of now]
  show ?thesis
  proof (cases "bearer_session req s")
    case True
    then obtain h where h: "authorization req = Some h" "startsWith h (js ''Bearer '')"
      "sessions s (drop 7 h) \<noteq> None"
      by (auto simp: bearer_session_def split: option.splits)
    with startsWith_Bearer_nonempty [of h] have "fst (requireAuth req now s) = Next"
      by (simp add: requireAuth_def g Let_def)
    with True show ?thesis by simp
  next
    case no_bearer: False
    then have test: "\<not> (truthy (authorization req)
        \<and> startsWith (the (authorization req)) (js ''Bearer '')
        \<and> sessions s (drop 7 (the (authorization req))) \<noteq> None)"
      by (cases "authorization req") (auto simp: bearer_session_def)
    obtain p s2 where l: "loadAdminPassword s = (p, s2)"
      by (cases "loadAdminPassword s")
    then have cp: "configured_password s = p"
      by (simp add: configured_password_def)
    from test have "fst (requireAuth req now s) =
        (if \<not> json_truthy p then Next
         else if map_option JStr (x_admin_password req) = p then Next
         else Respond 401 (SuccessError False msg_unauthenticated))"
      by (auto simp: requireAuth_def g Let_def l)
    with False no_bearer cp show ?thesis
      by (auto simp: header_password_def)
  qed
qed

text \<open>
  C1.  The auth gate authenticates a request if and only if the cookie session, the
  bearer session or the password header matches or no password is configured, and answers
  401 with a JSON body when a password is configured and nothing matches.

  The code does not do so for every request.  \<open>parseCookies\<close> passes each cookie value to
  \<open>decodeURIComponent\<close> outside any \<open>try\<close>, so a \<open>Cookie\<close> header with a malformed escape
  (\<open>sid=%\<close>) makes \<open>getSession\<close>, the first step of \<open>requireAuth\<close>, throw \<open>URIError\<close>.
  With the configured password in \<open>x-admin-password\<close> the request is not passed on, and
  with no valid credential it is not answered by the 401 body: in both cases the
  exception leaves the gate.
\<close>

theorem requireAuth_throws_on_malformed_cookie:
  "header_password (malformed_cookie\<lparr>x_admin_password := Some (js ''secret'')\<rparr>) server_env_password
   \<and> requireAuth (malformed_cookie\<lparr>x_admin_password := Some (js ''secret'')\<rparr>) clock0
        server_env_password = (Threw URIError, server_env_password)
   \<and> json_truthy (configured_password server_env_password)
   \<and> \<not> cookie_session malformed_cookie server_env_password
   \<and> \<not> bearer_session malformed_cookie server_env_password
   \<and> \<not> header_password malformed_cookie server_env_password
   \<and> requireAuth malformed_cookie clock0 server_env_password
        = (Threw URIError, server_env_password)"
  by (simp add: header_password_def configured_password_def cookie_session_def
      bearer_session_def loadAdminPassword_def malformed_cookie_def server_defs js_def
      cookie_defs requireAuth_def getSession_def)

section \<open>Sessions\<close>

text \<open>
  \<open>createSession\<close> has one way to return, with the new id: whatever becomes of the write,
  the caller gets the id and the record is in the in-memory table.  If the write succeeds,
  the sessions file holds the table that is in memory when the call returns.
\<close>

lemma createSession_returns_id:
  "fst (createSession bytes t t' pw s) = toString_hex bytes
   \<and> sessions (snd (createSession bytes t t' pw s)) =
       (sessions s)(toString_hex bytes \<mapsto> \<lparr>password = pw, createdAt = t, lastAccessedAt = t'\<rparr>)"
  by (simp add: createSession_def saveSessions_def Let_def split: sum.splits prod.splits)

lemma createSession_persists:
  assumes "createSession bytes t t' pw s = (sid, s')"
    and "writeFileSync (disk s) SESSIONS_FILE (JSON_stringify (sessions s')) = Inr fs'"
  shows "disk s' = fs' \<and> readFileSync (disk s') SESSIONS_FILE = Inr (Doc (sessions s'))"
  using assms
  by (auto simp: createSession_def saveSessions_def Let_def fs_defs
      split: sum.splits option.splits if_splits prod.splits)

text \<open>
  C5.  Every call to session create persists the whole session table before it returns,
  and surfaces a failed write to its caller instead of returning the new id.

  The code does not: on a server whose configuration directory has not been created yet
  the write fails with \<open>ENOENT\<close>, \<open>saveSessions\<close> catches the exception, and
  \<open>createSession\<close> returns the id all the same.  Nothing is on disk, and after a restart
  the id is unknown, although the comments of lines 45-48 and 88 promise a session that is
  saved for good and valid after a restart.  \<open>saveSessions\<close> does not create the directory,
  which \<open>saveServerAccounts\<close> and \<open>saveAdminPassword\<close> do before they write: on the same
  server \<open>saveServerAccounts\<close> succeeds.
\<close>

theorem createSession_returns_id_when_write_fails:
  "writeFileSync (disk server_env_password) SESSIONS_FILE (JSON_stringify [sid24 \<mapsto> session24])
      = Inl (ENOENT, disk server_env_password)
   \<and> createSession random24 clock0 clock1 (js ''secret'') server_env_password
      = (sid24, server_env_password\<lparr>sessions := [sid24 \<mapsto> session24]\<rparr>)
   \<and> node_at (disk server_env_password) SESSIONS_FILE = Absent
   \<and> sessions (loadSessions (server_env_password\<lparr>sessions := Map.empty\<rparr>)) sid24 = None
   \<and> saveServerAccounts [alice] server_env_password
      = (True, server_env_password\<lparr>disk := \<lparr>read_only = False, no_space = False,
           CONFIG_DIR = Some (empty_dir\<lparr>accounts_json := File (Doc [alice])\<rparr>)\<rparr>\<rparr>)"
  by (simp add: createSession_def saveSessions_def loadSessions_def saveServerAccounts_def
      toString_hex_random24 Let_def session24_def server_defs fs_defs)

text \<open>Where the directory exists the table is written, and on a file system that takes
  no write the id is returned as well.\<close>

lemma createSession_on_existing_directory:
  "createSession random24 clock0 clock1 (js ''secret'') server_ready
      = (sid24, server_ready\<lparr>sessions := [sid24 \<mapsto> session24],
           disk := \<lparr>read_only = False, no_space = False, CONFIG_DIR =
              Some (empty_dir\<lparr>sessions_json := File (Doc [sid24 \<mapsto> session24])\<rparr>)\<rparr>\<rparr>)
   \<and> createSession random24 clock0 clock1 (js ''secret'') server_read_only
      = (sid24, server_read_only\<lparr>sessions := [sid24 \<mapsto> session24]\<rparr>)"
  by (simp add: createSession_def saveSessions_def toString_hex_random24 Let_def
      session24_def server_defs fs_defs)

text \<open>
  A write that fails after the file was opened does more: on a full disk the sessions
  file is left empty, \<open>createSession\<close> returns the id, and a restart finds none of the
  sessions that were on disk before.
\<close>

lemma createSession_on_full_disk:
  "readFileSync (disk server_full) SESSIONS_FILE
      = Inr (Doc [js ''a'' \<mapsto> session_old, js ''b'' \<mapsto> session_old])
   \<and> fst (createSession random24 clock0 clock1 (js ''secret'') server_full) = sid24
   \<and> readFileSync (disk (snd (createSession random24 clock0 clock1 (js ''secret'') server_full)))
        SESSIONS_FILE = Inr Garbage
   \<and> sessions (loadSessions
        ((snd (createSession random24 clock0 clock1 (js ''secret'') server_full))
           \<lparr>sessions := Map.empty\<rparr>)) = Map.empty"
  by (simp add: createSession_def saveSessions_def loadSessions_def toString_hex_random24
      Let_def server_defs fs_defs)




section \<open>Setting the password\<close>

lemma saveAdminPassword_result:
  "fst (saveAdminPassword pw s) = (\<not> read_only (disk s) \<and> \<not> no_space (disk s))"
  by (auto simp: saveAdminPassword_def fs_defs
      split: option.splits sum.splits node.splits prod.splits)

lemma saveAdminPassword_saved:
  assumes "saveAdminPassword pw s = (True, s')"
  shows "node_at (disk s') PASSWORD_FILE = File (Doc (Some (json_text pw)))"
    and "ADMIN_PASSWORD s' = ADMIN_PASSWORD s"
  using assms
  by (auto simp: saveAdminPassword_def fs_defs
      split: option.splits sum.splits node.splits if_splits prod.splits)

text \<open>
  C7.  \<open>set-password\<close> answers 400 whenever \<open>ADMIN_PASSWORD\<close> is present in the
  environment, whatever the password file holds, and also when the file already holds a
  password or the candidate is missing or shorter than 6 characters; it succeeds only when
  no password is configured through either channel and the candidate has at least 6
  characters.

  Two parts of this fail.  The source tests the variable for truthiness, so with
  \<open>ADMIN_PASSWORD\<close> present but empty the handler goes on and saves the candidate.  And
  the test \<open>!password || password.length < 6\<close> does not ask for a string: the number
  \<open>12345\<close> of a JSON body is truthy and has no \<open>length\<close>, \<open>undefined < 6\<close> is false, and the
  number is saved as the password and answered by 200.
\<close>

theorem set_password_accepts_without_six_characters:
  "ADMIN_PASSWORD server_empty_env = Some []
   \<and> (\<forall>conv. set_password conv (Some (JStr (js ''hunter22''))) server_empty_env
        = (Respond 200 (SuccessOnly True),
           server_empty_env\<lparr>disk := disk server_with_password\<rparr>))
   \<and> (\<forall>conv. set_password conv (Some (JNum (Fin 12345))) server0
        = (Respond 200 (SuccessOnly True),
           server0\<lparr>disk := \<lparr>read_only = False, no_space = False, CONFIG_DIR =
             Some (empty_dir\<lparr>password_json := File (Doc (Some (JNum (Fin 12345))))\<rparr>)\<rparr>\<rparr>))
   \<and> (\<forall>conv. fst (set_password conv (Some (JBool True)) server0)
        = Respond 200 (SuccessOnly True))"
  by (simp add: server_defs js_def fs_defs set_password_def isPasswordSavedToFile_def
      saveAdminPassword_def)

text \<open>
  C7, as the code has it.  \<open>set-password\<close> answers 400 whenever \<open>ADMIN_PASSWORD\<close> is set to
  a non-empty value, whatever the password file holds; it answers 400 when the file
  already holds a password, and when the candidate is missing, is a falsy value such as
  the empty string, or is a string shorter than 6 characters.  It succeeds only when no
  password is configured through either channel and the candidate is truthy; a candidate
  that is a string then has at least 6 characters, is in the password file and is the
  configured password.  Conversely, a string of at least 6 characters is accepted under
  those conditions unless the file system refuses the write.
\<close>

theorem set_password_rejects:
  "(truthy (ADMIN_PASSWORD s) \<longrightarrow>
      set_password conv candidate s = (Respond 400 (ErrorOnly msg_env_password), s))
   \<and> (isPasswordSavedToFile s \<longrightarrow>
      (\<exists>m. set_password conv candidate s = (Respond 400 (ErrorOnly m), s)))
   \<and> (\<not> json_truthy candidate \<or> (\<exists>p. candidate = Some (JStr p) \<and> length p < 6) \<longrightarrow>
      (\<exists>m. set_password conv candidate s = (Respond 400 (ErrorOnly m), s)))
   \<and> (\<forall>b s'. set_password conv candidate s = (Respond 200 b, s') \<longrightarrow>
      \<not> truthy (ADMIN_PASSWORD s) \<and> \<not> isPasswordSavedToFile s \<and> json_truthy candidate
      \<and> (\<forall>p. candidate = Some (JStr p) \<longrightarrow>
             6 \<le> length p
             \<and> node_at (disk s') PASSWORD_FILE = File (Doc (Some (JStr p)))
             \<and> loadAdminPassword s' = (Some (JStr p), s')))
   \<and> (\<not> truthy (ADMIN_PASSWORD s) \<and> \<not> isPasswordSavedToFile s
      \<and> (\<exists>p. candidate = Some (JStr p) \<and> 6 \<le> length p)
      \<and> \<not> read_only (disk s) \<and> \<not> no_space (disk s) \<longrightarrow>
      fst (set_password conv candidate s) = Respond 200 (SuccessOnly True))"
proof (intro conjI impI allI)
  show "set_password conv candidate s = (Respond 400 (ErrorOnly msg_env_password), s)"
    if "truthy (ADMIN_PASSWORD s)"
    using that by (simp add: set_password_def)
  show "\<exists>m. set_password conv candidate s = (Respond 400 (ErrorOnly m), s)"
    if "isPasswordSavedToFile s"
    using that by (simp add: set_password_def)
  show "\<exists>m. set_password conv candidate s = (Respond 400 (ErrorOnly m), s)"
    if "\<not> json_truthy candidate \<or> (\<exists>p. candidate = Some (JStr p) \<and> length p < 6)"
    using that by (auto simp: set_password_def)
  show "\<not> truthy (ADMIN_PASSWORD s)" "\<not> isPasswordSavedToFile s" "json_truthy candidate"
    if "set_password conv candidate s = (Respond 200 b, s')" for b s'
    using that by (auto simp: set_password_def split: if_splits)
  show "6 \<le> length p" "node_at (disk s') PASSWORD_FILE = File (Doc (Some (JStr p)))"
      "loadAdminPassword s' = (Some (JStr p), s')"
    if ok: "set_password conv candidate s = (Respond 200 b, s')" and p: "candidate = Some (JStr p)"
    for b s' p
  proof -
    from ok p have env: "\<not> truthy (ADMIN_PASSWORD s)" and unsaved: "\<not> isPasswordSavedToFile s"
      and long: "6 \<le> length p"
      by (auto simp: set_password_def split: if_splits)
    from ok env unsaved p long have sv: "saveAdminPassword (JStr p) s = (True, s')"
      by (cases "saveAdminPassword (JStr p) s")
         (auto simp: set_password_def split: bool.splits if_splits)
    note saved = saveAdminPassword_saved [OF sv]
    from saved env have "loadAdminPassword s' = (Some (JStr p), s')"
      by (auto simp: loadAdminPassword_def fs_defs split: node.splits)
    with long saved show "6 \<le> length p"
      "node_at (disk s') PASSWORD_FILE = File (Doc (Some (JStr p)))"
      "loadAdminPassword s' = (Some (JStr p), s')"
      by simp_all
  qed
  show "fst (set_password conv candidate s) = Respond 200 (SuccessOnly True)"
    if h: "\<not> truthy (ADMIN_PASSWORD s) \<and> \<not> isPasswordSavedToFile s
      \<and> (\<exists>p. candidate = Some (JStr p) \<and> 6 \<le> length p)
      \<and> \<not> read_only (disk s) \<and> \<not> no_space (disk s)"
  proof -
    from h obtain p where p: "candidate = Some (JStr p)" "6 \<le> length p"
      by blast
    from h have "fst (saveAdminPassword (JStr p) s)"
      by (simp add: saveAdminPassword_result)
    with h p show ?thesis
      by (cases "saveAdminPassword (JStr p) s") (auto simp: set_password_def)
  qed
qed

theorem set_password_rejects_witness:
  "truthy (ADMIN_PASSWORD server_env_password)
   \<and> set_password (\<lambda>v. NaN) (Some (JStr (js ''hunter22''))) server_env_password
       = (Respond 400 (ErrorOnly msg_env_password), server_env_password)
   \<and> isPasswordSavedToFile server_with_password
   \<and> set_password (\<lambda>v. NaN) (Some (JStr (js ''another1''))) server_with_password
       = (Respond 400 (ErrorOnly msg_already_set), server_with_password)
   \<and> set_password (\<lambda>v. NaN) (Some (JStr (js ''abc''))) server0
       = (Respond 400 (ErrorOnly msg_too_short), server0)
   \<and> set_password (\<lambda>v. NaN) None server0 = (Respond 400 (ErrorOnly msg_too_short), server0)
   \<and> set_password (\<lambda>v. NaN) (Some (JStr (js ''hunter22''))) server0
       = (Respond 200 (SuccessOnly True), server_with_password)
   \<and> loadAdminPassword server_with_password
       = (Some (JStr (js ''hunter22'')), server_with_password)"
  using set_password_rejects [of server_env_password "\<lambda>v. NaN" "Some (JStr (js ''hunter22''))"]
    set_password_rejects [of server_with_password "\<lambda>v. NaN" "Some (JStr (js ''another1''))"]
    set_password_rejects [of server0 "\<lambda>v. NaN" "Some (JStr (js ''abc''))"]
    set_password_rejects [of server0 "\<lambda>v. NaN" None]
    set_password_rejects [of server0 "\<lambda>v. NaN" "Some (JStr (js ''hunter22''))"]
  by (simp add: server_defs js_def fs_defs set_password_def isPasswordSavedToFile_def
      saveAdminPassword_def loadAdminPassword_def)

section \<open>Persistence\<close>

text \<open>
  C9.  Saving a store and loading it back gives the content that was saved, for the
  session table, the account catalog and the admin password.  A save that the file
  system refuses saves nothing, so each round trip is stated for a save that succeeds;
  the session table is loaded back both into the running server and into the empty map
  of a restarted one; and the password, a string, is loaded by \<open>loadAdminPassword\<close>,
  which reads the file only when the environment sets no password (the one situation in
  which the server saves one).
\<close>

theorem persistence_round_trip:
  "(\<forall>fs'. writeFileSync (disk s) SESSIONS_FILE (JSON_stringify (sessions s)) = Inr fs' \<longrightarrow>
       sessions (loadSessions (saveSessions s)) = sessions s
     \<and> sessions (loadSessions ((saveSessions s)\<lparr>sessions := Map.empty\<rparr>)) = sessions s)
   \<and> (\<forall>s'. saveServerAccounts accounts s = (True, s') \<longrightarrow>
       loadServerAccounts s' = (accounts, s'))
   \<and> (\<forall>s'. saveAdminPassword (JStr pw) s = (True, s') \<and> \<not> truthy (ADMIN_PASSWORD s) \<longrightarrow>
       loadAdminPassword s' = (Some (JStr pw), s'))"
proof (intro conjI allI impI)
  fix fs'
  assume w: "writeFileSync (disk s) SESSIONS_FILE (JSON_stringify (sessions s)) = Inr fs'"
  then have sv: "saveSessions s = s\<lparr>disk := fs'\<rparr>"
    by (simp add: saveSessions_def)
  from w have rd: "readFileSync fs' SESSIONS_FILE = Inr (Doc (sessions s))"
    by (auto simp: fs_defs split: if_splits option.splits)
  then have ex: "existsSync fs' SESSIONS_FILE"
    by (auto simp: fs_defs split: node.splits option.splits)
  have idem: "sessions s ++ sessions s = sessions s"
    by (rule ext) (simp add: map_add_def split: option.splits)
  show "sessions (loadSessions (saveSessions s)) = sessions s"
    by (simp add: sv loadSessions_def rd ex JSON_parse_def idem)
  show "sessions (loadSessions ((saveSessions s)\<lparr>sessions := Map.empty\<rparr>)) = sessions s"
    by (simp add: sv loadSessions_def rd ex JSON_parse_def)
next
  fix s'
  assume "saveServerAccounts accounts s = (True, s')"
  then show "loadServerAccounts s' = (accounts, s')"
    by (auto simp: saveServerAccounts_def loadServerAccounts_def fs_defs
        split: option.splits sum.splits node.splits if_splits prod.splits)
next
  fix s'
  assume "saveAdminPassword (JStr pw) s = (True, s') \<and> \<not> truthy (ADMIN_PASSWORD s)"
  then show "loadAdminPassword s' = (Some (JStr pw), s')"
    using saveAdminPassword_saved [of "JStr pw" s s']
    by (auto simp: loadAdminPassword_def fs_defs split: node.splits)
qed

theorem persistence_round_trip_witness:
  "sessions (loadSessions ((saveSessions server_dir_at_accounts)\<lparr>sessions := Map.empty\<rparr>))
      = [sid24 \<mapsto> session24]
   \<and> sessions (loadSessions (saveSessions server_dir_at_accounts)) = [sid24 \<mapsto> session24]
   \<and> fst (saveServerAccounts [alice, bob] server_dir_at_accounts)
   \<and> fst (loadServerAccounts (snd (saveServerAccounts [alice, bob] server_dir_at_accounts)))
        = [alice, bob]
   \<and> fst (saveAdminPassword (JStr (js ''hunter22'')) server0)
   \<and> fst (loadAdminPassword (snd (saveAdminPassword (JStr (js ''hunter22'')) server0)))
        = Some (JStr (js ''hunter22''))"
  using persistence_round_trip [of server_dir_at_accounts "[alice, bob]" "js ''hunter22''"]
    persistence_round_trip [of server0 "[alice, bob]" "js ''hunter22''"]
  by (simp add: saveSessions_def loadSessions_def saveServerAccounts_def
      loadServerAccounts_def saveAdminPassword_def loadAdminPassword_def server_defs fs_defs)

section \<open>Usage figures\<close>

lemmas usage_defs =
  exact_def two_projects_def over_quota_def usage_report_def projectTotal_def
  displayCost_def jssub_def fetchUsageData_def

lemma usages_forEach_total:
  "snd (usages_forEach fl usages (costs, tot))
     = foldl (jsadd fl) tot (map (projectTotal fl) usages)"
  by (induction usages arbitrary: costs tot) simp_all

text \<open>
  The display cost of a project never depends on the rounding where the project's sum is
  not positive: it is \<open>0\<close>.  Where the sum is positive it is the rounded quotient by \<open>100\<close>
  of the ceiling of the rounded product with \<open>100\<close>; with arithmetic that rounds nothing
  this is the sum rounded up to the next multiple of \<open>0.01\<close>.
\<close>

lemma displayCost_not_positive:
  "\<not> js_gt t (Fin 0) \<Longrightarrow> displayCost fl t = Fin 0"
  by (simp add: displayCost_def)

lemma displayCost_exact:
  "0 < t \<Longrightarrow> displayCost exact (Fin t) = Fin (rounded_up_to_cent t)"
  by (simp add: displayCost_def exact_def rounded_up_to_cent_def)

text \<open>The specification's own figures, in arithmetic that rounds nothing: raw sums of
  \<open>0.071\<close> and \<open>0.034\<close> are displayed as \<open>0.08\<close> and \<open>0.04\<close> and total \<open>0.105\<close>; a raw
  sum of \<open>-0.01\<close> is displayed as \<open>0\<close>.\<close>

lemma usage_report_specification_figures:
  "usage_report exact
     [\<lparr>id' = js ''p1'', usageOfEntity = [Fin (71 / 1000)]\<rparr>,
      \<lparr>id' = js ''p2'', usageOfEntity = [Fin (34 / 1000)]\<rparr>,
      \<lparr>id' = js ''p3'', usageOfEntity = [Fin (- 1 / 100)]\<rparr>]
   = \<lparr>projectCosts = [js ''p1'' \<mapsto> Fin (8 / 100), js ''p2'' \<mapsto> Fin (4 / 100),
                       js ''p3'' \<mapsto> Fin 0],
      totalUsage = Fin (95 / 1000),
      freeQuotaRemaining = Fin (4905 / 1000),
      freeQuotaLimit = Fin 5\<rparr>"
proof -
  have c: "\<lceil>(71 :: rat) / 10\<rceil> = 8" "\<lceil>(17 :: rat) / 5\<rceil> = 4"
    by (simp_all add: ceiling_eq_iff)
  have "js ''p1'' \<noteq> js ''__proto__''" "js ''p2'' \<noteq> js ''__proto__''"
    "js ''p3'' \<noteq> js ''__proto__''"
    by (simp_all add: js_def)
  with c show ?thesis
    by (simp add: usage_report_def projectTotal_def displayCost_def jssub_def exact_def)
qed

subsection \<open>Display costs in binary64\<close>

lemma round_half_even_nearest:
  assumes "\<bar>a - of_int m\<bar> < 1 / 2"
  shows "round_half_even a = m"
proof (cases "of_int m \<le> a")
  case True
  with assms have "\<lfloor>a\<rfloor> = m" by (simp add: floor_eq_iff abs_less_iff)
  with assms True show ?thesis by (simp add: round_half_even_def Let_def abs_less_iff)
next
  case False
  with assms have "\<lfloor>a\<rfloor> = m - 1" by (simp add: floor_eq_iff abs_less_iff)
  with assms False show ?thesis by (simp add: round_half_even_def Let_def abs_less_iff)
qed

text \<open>The binary64 values of the numbers that the two reports below go through: \<open>0.07\<close>
  and \<open>0.01\<close> as \<open>JSON.parse\<close> reads them, their sums with \<open>0\<close>, their products with
  \<open>100\<close>, and the quotients \<open>8 / 100\<close>, \<open>1 / 100\<close> and \<open>2 / 100\<close>.\<close>

lemma binary64_7_100: "binary64 (7 / 100) = Fin (1261007895663739 / 18014398509481984)"
proof -
  have d: "scale_down (7 / 100) 0 = (7 / 100, 0)"
    by (simp add: scale_down.simps)
  have u: "scale_up (7 / 100) 0 = (126100789566373888 / 25, - 56)"
    by (simp add: scale_up.simps)
  have r: "round_half_even (126100789566373888 / 25) = 5044031582654956"
    by (rule round_half_even_nearest) simp
  show ?thesis
    by (simp add: binary64_def d u r pow2_def Let_def)
qed

lemma binary64_7_100_fixed:
  "binary64 (1261007895663739 / 18014398509481984) =
     Fin (1261007895663739 / 18014398509481984)"
proof -
  have d: "scale_down (1261007895663739 / 18014398509481984) 0 =
      (1261007895663739 / 18014398509481984, 0)"
    by (simp add: scale_down.simps)
  have u: "scale_up (1261007895663739 / 18014398509481984) 0 = (5044031582654956, - 56)"
    by (simp add: scale_up.simps)
  have r: "round_half_even 5044031582654956 = 5044031582654956"
    by (rule round_half_even_nearest) simp
  show ?thesis
    by (simp add: binary64_def d u r pow2_def Let_def)
qed

lemma binary64_7_100_times_100:
  "binary64 (31525197391593475 / 4503599627370496) =
     Fin (7881299347898369 / 1125899906842624)"
proof -
  have d: "scale_down (31525197391593475 / 4503599627370496) 0 =
      (31525197391593475 / 4503599627370496, 0)"
    by (simp add: scale_down.simps)
  have u: "scale_up (31525197391593475 / 4503599627370496) 0 = (31525197391593475 / 4, - 50)"
    by (simp add: scale_up.simps)
  have r: "round_half_even (31525197391593475 / 4) = 7881299347898369"
    by (rule round_half_even_nearest) simp
  show ?thesis
    by (simp add: binary64_def d u r pow2_def Let_def)
qed

lemma binary64_8_100: "binary64 (2 / 25) = Fin (5764607523034235 / 72057594037927936)"
proof -
  have d: "scale_down (2 / 25) 0 = (2 / 25, 0)"
    by (simp add: scale_down.simps)
  have u: "scale_up (2 / 25) 0 = (144115188075855872 / 25, - 56)"
    by (simp add: scale_up.simps)
  have r: "round_half_even (144115188075855872 / 25) = 5764607523034235"
    by (rule round_half_even_nearest) simp
  show ?thesis
    by (simp add: binary64_def d u r pow2_def Let_def)
qed

lemma binary64_1_100: "binary64 (1 / 100) = Fin (5764607523034235 / 576460752303423488)"
proof -
  have d: "scale_down (1 / 100) 0 = (1 / 100, 0)"
    by (simp add: scale_down.simps)
  have u: "scale_up (1 / 100) 0 = (144115188075855872 / 25, - 59)"
    by (simp add: scale_up.simps)
  have r: "round_half_even (144115188075855872 / 25) = 5764607523034235"
    by (rule round_half_even_nearest) simp
  show ?thesis
    by (simp add: binary64_def d u r pow2_def Let_def)
qed

lemma binary64_1_100_fixed:
  "binary64 (5764607523034235 / 576460752303423488) =
     Fin (5764607523034235 / 576460752303423488)"
proof -
  have d: "scale_down (5764607523034235 / 576460752303423488) 0 =
      (5764607523034235 / 576460752303423488, 0)"
    by (simp add: scale_down.simps)
  have u: "scale_up (5764607523034235 / 576460752303423488) 0 = (5764607523034235, - 59)"
    by (simp add: scale_up.simps)
  have r: "round_half_even 5764607523034235 = 5764607523034235"
    by (rule round_half_even_nearest) simp
  show ?thesis
    by (simp add: binary64_def d u r pow2_def Let_def)
qed

lemma binary64_1_100_times_100: "binary64 (144115188075855875 / 144115188075855872) = Fin 1"
proof -
  have d: "scale_down (144115188075855875 / 144115188075855872) 0 =
      (144115188075855875 / 144115188075855872, 0)"
    by (simp add: scale_down.simps)
  have u: "scale_up (144115188075855875 / 144115188075855872) 0 = (144115188075855875 / 32, - 52)"
    by (simp add: scale_up.simps)
  have r: "round_half_even (144115188075855875 / 32) = 4503599627370496"
    by (rule round_half_even_nearest) simp
  show ?thesis
    by (simp add: binary64_def d u r pow2_def Let_def)
qed

lemma binary64_2_100: "binary64 (1 / 50) = Fin (5764607523034235 / 288230376151711744)"
proof -
  have d: "scale_down (1 / 50) 0 = (1 / 50, 0)"
    by (simp add: scale_down.simps)
  have u: "scale_up (1 / 50) 0 = (144115188075855872 / 25, - 58)"
    by (simp add: scale_up.simps)
  have r: "round_half_even (144115188075855872 / 25) = 5764607523034235"
    by (rule round_half_even_nearest) simp
  show ?thesis
    by (simp add: binary64_def d u r pow2_def Let_def)
qed

lemmas binary64_values =
  binary64_7_100 binary64_7_100_fixed binary64_7_100_times_100 binary64_8_100
  binary64_1_100 binary64_1_100_fixed binary64_1_100_times_100 binary64_2_100

text \<open>
  C2.  The display cost of a project is the sum of its per-day usage values rounded up to
  the nearest \<open>0.01\<close> when the sum is positive, and \<open>0\<close> otherwise.

  The code computes \<open>Math.ceil(projectTotal * 100) / 100\<close> in binary64, which is not that
  amount.  A project whose only usage value is the JSON number \<open>0.07\<close>, a whole number of
  cents, is displayed as \<open>0.08\<close>: the product of the binary64 value of \<open>0.07\<close> with \<open>100\<close>
  is \<open>7.000000000000001\<close>, whose ceiling is \<open>8\<close>.  Nor is the display cost the round-up of
  the binary64 sum: for the JSON number \<open>0.01\<close> the sum is the binary64 value of \<open>0.01\<close>,
  which is greater than \<open>0.01\<close> and rounds up to \<open>0.02\<close>, while the code displays \<open>0.01\<close>,
  because the product with \<open>100\<close> is rounded to \<open>1\<close>.  So under either reading of the sum
  there is a report whose display cost is a cent off what the comment of line 506
  announces.
\<close>

theorem displayCost_is_not_the_sum_rounded_up:
  "projectTotal binary64 (hd seven_cents) = binary64 (7 / 100)
   \<and> rounded_up_to_cent (7 / 100) = 7 / 100
   \<and> projectCosts (usage_report binary64 seven_cents) (js ''p1'') = Some (binary64 (8 / 100))
   \<and> binary64 (8 / 100) \<noteq> binary64 (7 / 100)
   \<and> projectTotal binary64 (hd one_cent) = Fin (5764607523034235 / 576460752303423488)
   \<and> rounded_up_to_cent (5764607523034235 / 576460752303423488) = 2 / 100
   \<and> projectCosts (usage_report binary64 one_cent) (js ''p1'') = Some (binary64 (1 / 100))
   \<and> binary64 (1 / 100) \<noteq> binary64 (2 / 100)"
proof -
  have c: "\<lceil>(7881299347898369 :: rat) / 1125899906842624\<rceil> = 8"
    "\<lceil>(144115188075855875 :: rat) / 144115188075855872\<rceil> = 2"
    by (simp_all add: ceiling_eq_iff)
  show ?thesis
    by (simp add: seven_cents_def one_cent_def usage_report_def projectTotal_def
        displayCost_def rounded_up_to_cent_def js_def binary64_values c)
qed

text \<open>
  C3.  In every usage report \<open>totalUsage\<close> is the sum of the raw per-day values of all
  projects, never the sum of the rounded display costs, and \<open>freeQuotaRemaining\<close> is
  exactly \<open>5\<close> minus \<open>totalUsage\<close>, negative when the usage exceeds \<open>5\<close> and not clamped.

  The sums are the ones the source computes with the \<open>+\<close> of the platform: each
  project's days are added from \<open>0\<close> on, left to right, and the project sums are added
  from \<open>0\<close> on in the order of the report.  The remaining quota is the platform's \<open>5 -
  totalUsage\<close>: for a finite total \<open>t\<close> the rounded value of \<open>5 - t\<close>, with no lower bound.
\<close>

theorem usage_totals_are_raw:
  "fetchUsageData fl (End (Some (Some usages))) = Inr (usage_report fl usages)
   \<and> totalUsage (usage_report fl usages)
       = foldl (jsadd fl) (Fin 0)
           (map (\<lambda>project. foldl (jsadd fl) (Fin 0) (usageOfEntity project)) usages)
   \<and> freeQuotaRemaining (usage_report fl usages)
       = jssub fl (Fin 5) (totalUsage (usage_report fl usages))
   \<and> (\<forall>t. totalUsage (usage_report fl usages) = Fin t \<longrightarrow>
         freeQuotaRemaining (usage_report fl usages) = fl (5 - t))"
proof -
  obtain costs tot where r: "usages_forEach fl usages (Map.empty, Fin 0) = (costs, tot)"
    by (cases "usages_forEach fl usages (Map.empty, Fin 0)")
  with usages_forEach_total [of fl usages Map.empty "Fin 0"]
  have "tot = foldl (jsadd fl) (Fin 0)
           (map (\<lambda>project. foldl (jsadd fl) (Fin 0) (usageOfEntity project)) usages)"
    by (simp add: projectTotal_def [abs_def])
  with r show ?thesis
    by (simp add: usage_report_def fetchUsageData_def jssub_def)
qed

text \<open>Two projects with raw sums \<open>0.75\<close> and \<open>0.125\<close>: the total is \<open>0.875\<close> although the
  display costs are \<open>0.75\<close> and \<open>0.13\<close>; and a usage of \<open>5.5\<close> leaves \<open>-0.5\<close>.\<close>

theorem usage_totals_are_raw_witness:
  "totalUsage (usage_report exact two_projects) = Fin (7 / 8)
   \<and> projectCosts (usage_report exact two_projects) (js ''p1'') = Some (Fin (75 / 100))
   \<and> projectCosts (usage_report exact two_projects) (js ''p2'') = Some (Fin (13 / 100))
   \<and> freeQuotaRemaining (usage_report exact two_projects) = Fin (33 / 8)
   \<and> totalUsage (usage_report exact over_quota) = Fin (11 / 2)
   \<and> freeQuotaRemaining (usage_report exact over_quota) = Fin (- 1 / 2)"
proof -
  have c: "\<lceil>(25 :: rat) / 2\<rceil> = 13"
    by (simp add: ceiling_eq_iff)
  show ?thesis
    using usage_totals_are_raw [of exact two_projects]
      usage_totals_are_raw [of exact over_quota]
    by (simp add: usage_defs js_def c)
qed

section \<open>The batch endpoint\<close>

lemmas upstream_defs =
  alice_def bob_def alice_bodies_def upstream_ok_def upstream_usage_down_def
  upstream_rejects_def net2_def net_usage_down_first_def

lemmas task_defs =
  account_task_def fetchAccountData_def usageData_def creditInCents_def default_usage_def

lemma Math_round_500: "Math_round (Fin 500) = Fin 500"
proof -
  have "\<lfloor>(500 :: rat) + 1 / 2\<rfloor> = 500"
    by (simp add: floor_eq_iff)
  then show ?thesis by simp
qed

text \<open>
  C8.  When the identity lookup of an account succeeds (\<open>fetchAccountData\<close> returns and
  the user has an id) and the usage query then fails, the account continues with the
  all-zero usage snapshot and its result is a success: total usage and total cost are
  \<open>0\<close> against the quota limit of \<open>5\<close>.
\<close>

theorem usage_failure_keeps_success:
  assumes "fetchAccountData (queries up) = Inr d"
    and "json_truthy (user d (js ''_id''))"
    and "fetchUsageData fl (usage up) = Inl e"
  shows "usageData fl up (user d)
       = \<lparr>projectCosts = Map.empty, totalUsage = Fin 0, freeQuotaRemaining = Fin 5,
          freeQuotaLimit = Fin 5\<rparr>
     \<and> (\<exists>data. account_task fl up a = Inr (Success (name a) data (aihub d))
           \<and> data (js ''totalUsage'') = Some (JNum (Fin 0))
           \<and> data (js ''totalCost'') = Some (JNum (Fin 0))
           \<and> data (js ''freeQuotaLimit'') = Some (JNum (Fin 5)))"
  using assms
  by (simp add: account_task_def usageData_def default_usage_def Let_def js_def)

theorem usage_failure_keeps_success_witness:
  "(\<exists>d. fetchAccountData (queries upstream_usage_down) = Inr d
        \<and> json_truthy (user d (js ''_id'')))
   \<and> fetchUsageData exact (usage upstream_usage_down) = Inl (Error (js ''Request timeout''))
   \<and> (case account_task exact upstream_usage_down alice of
        Inr (Success n data ah) \<Rightarrow>
          n = js ''alice'' \<and> data (js ''totalUsage'') = Some (JNum (Fin 0))
          \<and> data (js ''totalCost'') = Some (JNum (Fin 0))
          \<and> data (js ''username'') = Some (JStr (js ''alice''))
      | _ \<Rightarrow> False)"
proof -
  let ?d = "\<lparr>user = [js ''_id'' \<mapsto> JStr (js ''u1''), js ''username'' \<mapsto> JStr (js ''alice''),
                      js ''credit'' \<mapsto> JNum (Fin 12345)],
             projects = [], aihub = JObj [], serviceCosts = Fin 0\<rparr>"
  have d: "fetchAccountData (queries upstream_usage_down) = Inr ?d"
    by (simp add: fetchAccountData_def upstream_defs)
  have i: "json_truthy (user ?d (js ''_id''))"
    by (simp add: js_def)
  have u: "fetchUsageData exact (usage upstream_usage_down) = Inl (Error (js ''Request timeout''))"
    by (simp add: fetchUsageData_def upstream_defs)
  have t: "account_task exact upstream_usage_down alice
      = Inr (Success (js ''alice'')
          ((user ?d)
             (js ''credit'' \<mapsto> JNum (Fin 500),
              js ''totalUsage'' \<mapsto> JNum (Fin 0),
              js ''totalCost'' \<mapsto> JNum (Fin 0),
              js ''freeQuotaLimit'' \<mapsto> JNum (Fin 5)))
          (JObj []))"
    by (simp add: task_defs upstream_defs Let_def js_def exact_def fetchUsageData_def
        Math_round_500 del: Math_round.simps)
  from usage_failure_keeps_success [OF d i u, of alice] d i u show ?thesis
    by (simp add: t) (simp add: js_def)
qed

subsection \<open>The batch\<close>

lemma account_task_settles:
  "\<exists>r. account_task fl up a = Inr r
     \<and> ((\<exists>data ah. r = Success (name a) data ah \<and> (\<exists>d. fetchAccountData (queries up) = Inr d))
        \<or> (\<exists>e. r = Failure (name a) e \<and> fetchAccountData (queries up) = Inl e))"
  by (cases "fetchAccountData (queries up)") (simp_all add: account_task_def Let_def)

lemma account_task_fulfilled: "account_task fl up a = Inr (fulfilled fl up a)"
  using account_task_settles [of fl up a] by (auto simp: fulfilled_def)

lemma Promise_all_tasks:
  "Promise_all (map (\<lambda>(i, a). account_task fl (net i) a) xs)
     = Inr (map (\<lambda>(i, a). fulfilled fl (net i) a) xs)"
  by (induction xs) (auto simp: account_task_fulfilled)

lemma account_task_credit:
  assumes "account_task fl up a = Inr (Success n data ah)"
  shows "\<exists>d. fetchAccountData (queries up) = Inr d
     \<and> data (js ''credit'') =
          Some (JNum (Math_round
            (jsmul fl (freeQuotaRemaining (usageData fl up (user d))) (Fin 100))))
     \<and> (\<forall>u. json_truthy (user d (js ''_id'')) \<and> fetchUsageData fl (usage up) = Inr u \<longrightarrow>
          data (js ''credit'') =
            Some (JNum (Math_round (jsmul fl (jssub fl (Fin 5) (totalUsage u)) (Fin 100)))))
     \<and> (\<forall>e. fetchUsageData fl (usage up) = Inl e \<and> fl 500 = Fin 500 \<longrightarrow>
          data (js ''credit'') = Some (JNum (Fin 500)))"
proof -
  from assms obtain d where d: "fetchAccountData (queries up) = Inr d"
    by (cases "fetchAccountData (queries up)") (auto simp: account_task_def)
  with assms have data: "data = (user d)
      (js ''credit'' \<mapsto> JNum (creditInCents fl (usageData fl up (user d))),
       js ''totalUsage'' \<mapsto> JNum (totalUsage (usageData fl up (user d))),
       js ''totalCost'' \<mapsto> JNum (totalUsage (usageData fl up (user d))),
       js ''freeQuotaLimit'' \<mapsto> JNum (freeQuotaLimit (usageData fl up (user d))))"
    by (simp add: account_task_def Let_def)
  have c: "data (js ''credit'') = Some (JNum (creditInCents fl (usageData fl up (user d))))"
    by (simp add: data js_def)
  have ok: "usageData fl up (user d) = u
      \<and> freeQuotaRemaining u = jssub fl (Fin 5) (totalUsage u)"
    if "json_truthy (user d (js ''_id''))" "fetchUsageData fl (usage up) = Inr u" for u
    using that
    by (auto simp: usageData_def fetchUsageData_def usage_report_def
        split: reply.splits option.splits prod.splits)
  have failed: "usageData fl up (user d) = default_usage"
    if "fetchUsageData fl (usage up) = Inl e" for e
    using that by (simp add: usageData_def)
  show ?thesis
    using d c ok failed
    by (auto simp: creditInCents_def default_usage_def Math_round_500
        simp del: Math_round.simps)
qed


text \<open>
  C10.  In every successful result of the batch endpoint, \<open>credit\<close> is
  \<open>Math.round(freeQuotaRemaining * 100)\<close> of the account's usage data, whatever \<open>credit\<close>
  the identity query returned: where the usage query succeeded this is
  \<open>Math.round((5 - totalUsage) * 100)\<close>, and where it failed \<open>credit\<close> is \<open>500\<close>.  The
  last value relies on one fact about the platform's arithmetic, that the product
  \<open>5 * 100\<close> is the number \<open>500\<close>, which binary64 represents.
\<close>

theorem credit_is_computed:
  assumes "temp_accounts fl net (Some accounts) = Respond status (Results results)"
    and "i < length results"
    and "results ! i = Success n data ah"
  shows "\<exists>d. fetchAccountData (queries (net i)) = Inr d
     \<and> data (js ''credit'') =
          Some (JNum (Math_round
            (jsmul fl (freeQuotaRemaining (usageData fl (net i) (user d))) (Fin 100))))
     \<and> (\<forall>u. json_truthy (user d (js ''_id''))
            \<and> fetchUsageData fl (usage (net i)) = Inr u \<longrightarrow>
          data (js ''credit'') =
            Some (JNum (Math_round (jsmul fl (jssub fl (Fin 5) (totalUsage u)) (Fin 100)))))
     \<and> (\<forall>e. fetchUsageData fl (usage (net i)) = Inl e \<and> fl 500 = Fin 500 \<longrightarrow>
          data (js ''credit'') = Some (JNum (Fin 500)))"
proof -
  from assms(1) have rs: "results = map (\<lambda>(i, a). fulfilled fl (net i) a) (enumerate 0 accounts)"
    by (simp add: temp_accounts_def Promise_all_tasks)
  with assms(2) have "results ! i = fulfilled fl (net i) (accounts ! i)"
    by (simp add: nth_enumerate_eq)
  with assms(3) have "account_task fl (net i) (accounts ! i) = Inr (Success n data ah)"
    by (simp add: account_task_fulfilled)
  then show ?thesis
    by (rule account_task_credit)
qed

text \<open>The upstream credit of \<open>12345\<close> is replaced: by \<open>500\<close> for the account whose
  usage query times out, and by \<open>413\<close> for the one with a usage of \<open>0.875\<close>.\<close>

theorem credit_is_computed_witness:
  "exact 500 = Fin 500
   \<and> fetchUsageData exact (usage (net_usage_down_first 0)) = Inl (Error (js ''Request timeout''))
   \<and> (case temp_accounts exact net_usage_down_first (Some [alice, bob]) of
        Respond status (Results [Success n1 data1 ah1, Success n2 data2 ah2]) \<Rightarrow>
          data1 (js ''credit'') = Some (JNum (Fin 500))
          \<and> data2 (js ''credit'') = Some (JNum (Fin 413))
      | _ \<Rightarrow> False)"
proof -
  have "\<lfloor>(825 :: rat) / 2 + 1 / 2\<rfloor> = 413"
    by (simp add: floor_eq_iff)
  then have f: "Math_round (Fin (825 / 2)) = Fin 413"
    by simp
  have u: "fetchUsageData exact (usage (net_usage_down_first 0))
      = Inl (Error (js ''Request timeout''))"
    by (simp add: fetchUsageData_def upstream_defs)
  have e: "exact 500 = Fin 500"
    by (simp add: exact_def)
  obtain data1 data2 where
    r: "temp_accounts exact net_usage_down_first (Some [alice, bob])
        = Respond 200 (Results [Success (js ''alice'') data1 (JObj []),
                                Success (js ''bob'') data2 (JObj [])])"
    and d2: "data2 (js ''credit'') = Some (JNum (Fin 413))"
    by (simp add: temp_accounts_def task_defs usage_defs upstream_defs Let_def js_def f
        Math_round_500 del: Math_round.simps)
  from credit_is_computed [OF r, of 0 "js ''alice''" data1 "JObj []"] u e
  have "data1 (js ''credit'') = Some (JNum (Fin 500))"
    by auto
  with r d2 u e show ?thesis
    by simp
qed

text \<open>
  C4.  For every list of \<open>N\<close> accounts the batch endpoint answers with \<open>N\<close> results in
  the order of the input.  The result at position \<open>i\<close> is what the task of account \<open>i\<close>
  is fulfilled with, a function of that account and of the platform's answers to its own
  requests only: a success, or a failure with the error that \<open>fetchAccountData\<close> failed
  with.  No task is rejected, so a failing account never turns the batch into an error
  response and never changes a sibling's result.  The platform's answers are given as
  settled requests; how long they take is outside the model.
\<close>

theorem batch_results_in_order:
  "temp_accounts fl net (Some accounts)
     = Respond 200 (Results (map (\<lambda>i. fulfilled fl (net i) (accounts ! i)) [0..<length accounts]))
   \<and> (\<forall>i < length accounts.
        account_task fl (net i) (accounts ! i) = Inr (fulfilled fl (net i) (accounts ! i))
        \<and> ((\<exists>data ah. fulfilled fl (net i) (accounts ! i) = Success (name (accounts ! i)) data ah)
           \<or> (\<exists>e. fulfilled fl (net i) (accounts ! i) = Failure (name (accounts ! i)) e
                  \<and> fetchAccountData (queries (net i)) = Inl e)))"
proof -
  have "map (\<lambda>(i, a). fulfilled fl (net i) a) (enumerate 0 accounts)
      = map (\<lambda>i. fulfilled fl (net i) (accounts ! i)) [0..<length accounts]"
    by (rule nth_equalityI) (simp_all add: nth_enumerate_eq)
  then have "temp_accounts fl net (Some accounts)
      = Respond 200 (Results (map (\<lambda>i. fulfilled fl (net i) (accounts ! i)) [0..<length accounts]))"
    by (simp add: temp_accounts_def Promise_all_tasks)
  moreover have "(\<exists>data ah. fulfilled fl (net i) (accounts ! i) = Success (name (accounts ! i)) data ah)
      \<or> (\<exists>e. fulfilled fl (net i) (accounts ! i) = Failure (name (accounts ! i)) e
             \<and> fetchAccountData (queries (net i)) = Inl e)" for i
    using account_task_settles [of fl "net i" "accounts ! i"]
    by (auto simp: account_task_fulfilled)
  ultimately show ?thesis
    by (simp add: account_task_fulfilled)
qed

text \<open>Alice's requests are answered and Bob's are not: two results, Alice's a success
  with her usage of \<open>0.875\<close>, Bob's a failure with his error.\<close>

theorem batch_results_in_order_witness:
  "(case temp_accounts exact net2 (Some [alice, bob]) of
      Respond status (Results [Success n1 data ah, Failure n2 e]) \<Rightarrow>
        status = 200 \<and> n1 = js ''alice'' \<and> n2 = js ''bob''
        \<and> data (js ''totalUsage'') = Some (JNum (Fin (7 / 8)))
        \<and> e = Error (js ''Invalid JSON response'')
    | _ \<Rightarrow> False)"
proof -
  have f1: "\<exists>data ah. fulfilled exact upstream_ok alice = Success (js ''alice'') data ah
      \<and> data (js ''totalUsage'') = Some (JNum (Fin (7 / 8)))"
    by (simp add: fulfilled_def task_defs usage_defs upstream_defs Let_def js_def)
  have f2: "fulfilled exact upstream_rejects bob
      = Failure (js ''bob'') (Error (js ''Invalid JSON response''))"
    by (simp add: fulfilled_def task_defs upstream_defs)
  have "[0..<length [alice, bob]] = [0, 1]"
    by (simp add: upt_rec)
  with batch_results_in_order [of exact net2 "[alice, bob]"]
  have "temp_accounts exact net2 (Some [alice, bob])
      = Respond 200 (Results [fulfilled exact upstream_ok alice,
                              fulfilled exact upstream_rejects bob])"
    by (simp add: net2_def)
  with f1 f2 show ?thesis
    by auto
qed

end
